theory Spec2Isabelle
  imports Main
begin

section \<open>Data shared by the Git history provider and the history view model\<close>

text \<open>
  A rejected promise or a thrown exception is the left summand of a sum type; the payload
  is the thrown value.
\<close>

datatype error = Error string

text \<open>
  The history item group of the extension API: the remote and the base counterpart are
  groups without a remote or base of their own.
\<close>

record HistoryItemGroupRef =
  r_id :: string
  r_name :: string
  r_revision :: "string option"

record HistoryItemGroup =
  g_id :: string
  g_name :: string
  g_revision :: "string option"
  g_remote :: "HistoryItemGroupRef option"
  g_base :: "HistoryItemGroupRef option"

record Statistics =
  files :: nat
  insertions :: nat
  deletions :: nat

record HistoryItemLabel =
  title :: string
  icon :: string

record HistoryItem =
  item_id :: string
  parentIds :: "string list"
  message :: string
  author :: "string option"
  item_icon :: string
  displayId :: string
  timestamp :: "int option"
  statistics :: Statistics
  labels :: "HistoryItemLabel list option"

text \<open>
  The options of \<open>provideHistoryItems\<close>: \<open>limit\<close> is absent, a number, or an object
  whose \<open>id\<close> may be a string.
\<close>

datatype Limit = LimitUndefined | LimitNumber int | LimitItem "string option"

record HistoryOptions =
  historyItemGroupIds :: "string list option"
  limit :: Limit
  skip :: "nat option"

section \<open>The Git history provider (extensions/git/src/historyProvider.ts)\<close>

record Commit =
  hash :: string
  commitMessage :: string
  parents :: "string list"
  authorDate :: "int option"
  authorName :: "string option"
  commitRefNames :: "string list"
  shortStat :: "Statistics option"

record LogOptions =
  refNames :: "string list"
  shortStats :: "bool option"
  maxEntries :: "int option"
  logRange :: "string option"
  logSkip :: "nat option"
  silent :: "bool option"
  maxParents :: "nat option"

text \<open>
  The repository object, the emoji helpers and the logger live outside the file; the
  provider only calls them. Each asynchronous call either yields a value or rejects.
\<close>

record Repository =
  getCommit :: "string \<Rightarrow> error + Commit"
  getEmptyTree :: "error + string"
  repositoryLog :: "LogOptions \<Rightarrow> error + Commit list"
  getMergeBase :: "string \<Rightarrow> string \<Rightarrow> string list \<Rightarrow> error + string option"

datatype LogEntry =
  ProvideHistoryItemsFailed HistoryOptions error
| ResolveCommonAncestorFailed "string list" error

record GitHistoryProvider =
  currentHistoryItemGroup :: "HistoryItemGroup option"
  gitRepository :: Repository
  ensureEmojis :: "error + unit"
  emojify :: "string \<Rightarrow> string"

text \<open>
  What a call of the provider leaves behind: the lines written with \<open>logger.error\<close>, the
  options of every \<open>repository.log\<close> call it made, and the settled promise.
\<close>

record 'a GitResult =
  logged :: "LogEntry list"
  logCalls :: "LogOptions list"
  returned :: "error + 'a"

text \<open>
  \<open>new Set(xs)\<close> adds the elements in order and ignores one that is already there;
  \<open>Array.from\<close> lists the set in insertion order.
\<close>

definition setAdd :: "'a list \<Rightarrow> 'a \<Rightarrow> 'a list" where
  "setAdd s x = (if x \<in> set s then s else s @ [x])"

definition arrayFromNewSet :: "'a list \<Rightarrow> 'a list" where
  "arrayFromNewSet xs = foldl setAdd [] xs"

text \<open>The label table, in the insertion order of the map literal.\<close>

definition historyItemLabels :: "(string \<times> string) list" where
  "historyItemLabels =
     [(''HEAD -> refs/heads/'', ''target''),
      (''tag: refs/tags/'', ''tag''),
      (''refs/heads/'', ''git-branch''),
      (''refs/remotes/'', ''cloud'')]"

definition startsWith :: "string \<Rightarrow> string \<Rightarrow> bool" where
  "startsWith s key = (take (length key) s = key)"

fun firstLabel :: "(string \<times> string) list \<Rightarrow> string \<Rightarrow> HistoryItemLabel list" where
  "firstLabel [] label = []"
| "firstLabel ((key, val) # rest) label =
     (if startsWith label key
      then [\<lparr>title = drop (length key) label, icon = val\<rparr>]
      else firstLabel rest label)"

definition resolveHistoryItemLabels :: "Commit \<Rightarrow> HistoryItemLabel list" where
  "resolveHistoryItemLabels commit =
     concat (map (firstLabel historyItemLabels) (commitRefNames commit))"

definition toHistoryItem :: "(string \<Rightarrow> string) \<Rightarrow> Commit \<Rightarrow> HistoryItem" where
  "toHistoryItem emo commit =
     (let ls = resolveHistoryItemLabels commit in
      \<lparr>item_id = hash commit,
       parentIds = parents commit,
       message = emo (commitMessage commit),
       author = authorName commit,
       item_icon = ''git-commit'',
       displayId = take 8 (hash commit),
       timestamp = authorDate commit,
       statistics = (case shortStat commit of
                       Some s \<Rightarrow> s
                     | None \<Rightarrow> \<lparr>files = 0, insertions = 0, deletions = 0\<rparr>),
       labels = (if length ls \<noteq> 0 then Some ls else None)\<rparr>)"

text \<open>
  The first part of the \<open>try\<close> block: the log options after the \<open>limit\<close> and \<open>skip\<close>
  branches. A numeric or absent limit becomes \<open>maxEntries\<close> (50 when absent); a limit
  object with an id becomes the range from the first parent of that commit, or from the
  empty tree when it has no parent.
\<close>

definition limitLogOptions :: "Repository \<Rightarrow> Limit \<Rightarrow> LogOptions \<Rightarrow> error + LogOptions" where
  "limitLogOptions repo lim logOptions =
     (case lim of
        LimitUndefined \<Rightarrow> Inr (logOptions\<lparr>maxEntries := Some 50\<rparr>)
      | LimitNumber n \<Rightarrow> Inr (logOptions\<lparr>maxEntries := Some n\<rparr>)
      | LimitItem None \<Rightarrow> Inr logOptions
      | LimitItem (Some i) \<Rightarrow>
          (case getCommit repo i of
             Inl err \<Rightarrow> Inl err
           | Inr commit \<Rightarrow>
               (case parents commit of
                  p # _ \<Rightarrow> Inr (logOptions\<lparr>logRange := Some (p @ ''..'')\<rparr>)
                | [] \<Rightarrow>
                    (case getEmptyTree repo of
                       Inl err \<Rightarrow> Inl err
                     | Inr t \<Rightarrow> Inr (logOptions\<lparr>logRange := Some (t @ ''..'')\<rparr>)))))"

definition skipLogOptions :: "nat option \<Rightarrow> LogOptions \<Rightarrow> LogOptions" where
  "skipLogOptions s logOptions =
     (case s of None \<Rightarrow> logOptions | Some n \<Rightarrow> logOptions\<lparr>logSkip := Some n\<rparr>)"

text \<open>
  The whole \<open>try\<close> block: the \<open>repository.log\<close> calls it made and its outcome, \<open>Inl\<close>
  when something inside threw.
\<close>

definition provideHistoryItemsTry ::
  "GitHistoryProvider \<Rightarrow> HistoryOptions \<Rightarrow> LogOptions \<Rightarrow> LogOptions list \<times> (error + HistoryItem list)" where
  "provideHistoryItemsTry p options logOptions =
     (case limitLogOptions (gitRepository p) (limit options) logOptions of
        Inl err \<Rightarrow> ([], Inl err)
      | Inr lo1 \<Rightarrow>
          (let lo2 = skipLogOptions (skip options) lo1;
               lo3 = lo2\<lparr>silent := Some True\<rparr>
           in case repositoryLog (gitRepository p) lo3 of
                Inl err \<Rightarrow> ([lo3], Inl err)
              | Inr commits \<Rightarrow>
                  (case ensureEmojis p of
                     Inl err \<Rightarrow> ([lo3], Inl err)
                   | Inr _ \<Rightarrow> ([lo3], Inr (map (toHistoryItem (emojify p)) commits)))))"

definition provideHistoryItems :: "GitHistoryProvider \<Rightarrow> HistoryOptions \<Rightarrow> HistoryItem list GitResult" where
  "provideHistoryItems p options =
     (case (currentHistoryItemGroup p, historyItemGroupIds options) of
        (Some _, Some ids) \<Rightarrow>
          (let refNames0 = arrayFromNewSet ids;
               logOptions = \<lparr>refNames = refNames0, shortStats = Some True, maxEntries = None,
                             logRange = None, logSkip = None, silent = None, maxParents = None\<rparr>
           in case provideHistoryItemsTry p options logOptions of
                (cs, Inr items) \<Rightarrow> \<lparr>logged = [], logCalls = cs, returned = Inr items\<rparr>
              | (cs, Inl err) \<Rightarrow>
                  \<lparr>logged = [ProvideHistoryItemsFailed options err], logCalls = cs, returned = Inr []\<rparr>)
      | _ \<Rightarrow> \<lparr>logged = [], logCalls = [], returned = Inr []\<rparr>)"

text \<open>
  \<open>resolveHistoryItemGroupCommonAncestor\<close>: the \<open>try\<close> block first. Falling out of the
  block without a \<open>return\<close> reaches the final \<open>return undefined\<close>, which is \<open>Inr None\<close>
  here.
\<close>

definition resolveCommonAncestorTry ::
  "GitHistoryProvider \<Rightarrow> string list \<Rightarrow> LogOptions list \<times> (error + string option)" where
  "resolveCommonAncestorTry p ids =
     (case ids of
        [] \<Rightarrow> ([], Inr None)
      | [i] \<Rightarrow>
          (case currentHistoryItemGroup p of
             None \<Rightarrow> ([], Inr None)
           | Some g \<Rightarrow>
               if i = g_id g then
                 (case g_remote g of
                    Some r \<Rightarrow> ([], getMergeBase (gitRepository p) i (r_id r) [])
                  | None \<Rightarrow>
                      (case g_base g of
                         Some b \<Rightarrow> ([], getMergeBase (gitRepository p) i (r_id b) [])
                       | None \<Rightarrow>
                           (let lo = \<lparr>refNames = [''HEAD''], shortStats = None, maxEntries = None,
                                      logRange = None, logSkip = None, silent = None,
                                      maxParents = Some 0\<rparr>
                            in case repositoryLog (gitRepository p) lo of
                                 Inl err \<Rightarrow> ([lo], Inl err)
                               | Inr commits \<Rightarrow>
                                   (case commits of
                                      c # _ \<Rightarrow> ([lo], Inr (Some (hash c)))
                                    | [] \<Rightarrow> ([lo], Inr None)))))
               else ([], Inr None))
      | i # j # rest \<Rightarrow> ([], getMergeBase (gitRepository p) i j rest))"

definition resolveHistoryItemGroupCommonAncestor ::
  "GitHistoryProvider \<Rightarrow> string list \<Rightarrow> string option GitResult" where
  "resolveHistoryItemGroupCommonAncestor p ids =
     (case resolveCommonAncestorTry p ids of
        (cs, Inr a) \<Rightarrow> \<lparr>logged = [], logCalls = cs, returned = Inr a\<rparr>
      | (cs, Inl err) \<Rightarrow>
          \<lparr>logged = [ResolveCommonAncestorFailed ids err], logCalls = cs, returned = Inr None\<rparr>)"

section \<open>The history view model (class SCMHistoryViewModel)\<close>

text \<open>A repository handle; the view model only compares handles and uses them as keys.\<close>

type_synonym ISCMRepository = nat

text \<open>
  The three colour identifiers are constants of scmHistory.ts, which the view model only
  passes on; they are kept symbolic. \<open>ColorId s\<close> is any other identifier, such as the
  empty string of the wildcard entry.
\<close>

datatype ColorIdentifier =
  historyItemGroupLocal | historyItemGroupRemote | historyItemGroupBase | ColorId string

text \<open>
  A JavaScript \<open>Map\<close> keeps its entries in insertion order; \<open>set\<close> on a key that is
  present replaces the value in place, and appends the entry otherwise.
\<close>

fun mapSet :: "('k \<times> 'v) list \<Rightarrow> 'k \<Rightarrow> 'v \<Rightarrow> ('k \<times> 'v) list" where
  "mapSet [] k v = [(k, v)]"
| "mapSet ((k', v') # m) k v =
     (if k' = k then (k, v) # m else (k', v') # mapSet m k v)"

definition mapGet :: "('k \<times> 'v) list \<Rightarrow> 'k \<Rightarrow> 'v option" where
  "mapGet m k = map_of m k"

definition entriesFor :: "('k \<times> 'v) list \<Rightarrow> 'k \<Rightarrow> ('k \<times> 'v) list" where
  "entriesFor m k = filter (\<lambda>e. fst e = k) m"

datatype Filter = FilterAll | FilterAuto | FilterIds "string list"

text \<open>The history provider as the workbench sees it.\<close>

record ISCMHistoryProvider =
  scmCurrentHistoryItemGroup :: "HistoryItemGroup option"
  scmProvideHistoryItems :: "HistoryOptions \<Rightarrow> error + HistoryItem list option"

record HistoryItemState =
  stateCurrentHistoryItemGroup :: HistoryItemGroup
  items :: "HistoryItem list"
  loadMore :: bool

text \<open>
  The view model object: the observables and services it reads, and its private map
  \<open>_state\<close>. \<open>toISCMHistoryItemViewModelArray\<close> is a function of scmHistory.ts, which is
  not part of the sources; it is a parameter here, and \<open>'vm\<close> is its view model type.
\<close>

record 'vm SCMHistoryViewModel =
  repository :: "ISCMRepository option"
  historyProviderOf :: "ISCMRepository \<Rightarrow> ISCMHistoryProvider option"
  historyItemGroupFilterValue :: Filter
  pageSize :: int
  toISCMHistoryItemViewModelArray :: "HistoryItem list \<Rightarrow> (string \<times> ColorIdentifier) list \<Rightarrow> 'vm list"
  state :: "ISCMRepository \<rightharpoonup> HistoryItemState"

record 'vm SCMHistoryItemViewModelTreeElement =
  elementRepository :: ISCMRepository
  historyItemViewModel :: 'vm

text \<open>
  What a call of \<open>getHistoryItems\<close> leaves behind: the requests it sent to the provider,
  the view model afterwards, and the settled promise.
\<close>

record 'vm Outcome =
  providerCalls :: "HistoryOptions list"
  viewModel :: "'vm SCMHistoryViewModel"
  settled :: "error + 'vm SCMHistoryItemViewModelTreeElement list"

definition orElse :: "'a option \<Rightarrow> 'a \<Rightarrow> 'a" where
  "orElse x d = (case x of Some v \<Rightarrow> v | None \<Rightarrow> d)"

text \<open>
  Modelled from the spec: \<open>clamp\<close> of base/common/numbers, which is not part of the
  sources. The spec says the configured page size is bounded to the interval given by
  the two other arguments.
\<close>

definition clamp :: "int \<Rightarrow> int \<Rightarrow> int \<Rightarrow> int" where
  "clamp v lo hi = min (max v lo) hi"

definition historyItemGroupFilter :: "'vm SCMHistoryViewModel \<Rightarrow> string list" where
  "historyItemGroupFilter vm =
     (case historyItemGroupFilterValue vm of
        FilterIds ids \<Rightarrow> ids
      | FilterAll \<Rightarrow> []
      | FilterAuto \<Rightarrow>
          (case repository vm of
             None \<Rightarrow> []
           | Some r \<Rightarrow>
               (case historyProviderOf vm r of
                  None \<Rightarrow> []
                | Some hp \<Rightarrow>
                    (case scmCurrentHistoryItemGroup hp of
                       None \<Rightarrow> []
                     | Some g \<Rightarrow>
                         [orElse (g_revision g) (g_id g)]
                         @ (case g_remote g of
                              Some rm \<Rightarrow> [orElse (r_revision rm) (r_id rm)]
                            | None \<Rightarrow> [])
                         @ (case g_base g of
                              Some b \<Rightarrow> [orElse (r_revision b) (r_id b)]
                            | None \<Rightarrow> [])))))"

definition clearRepositoryState :: "'vm SCMHistoryViewModel \<Rightarrow> 'vm SCMHistoryViewModel" where
  "clearRepositoryState vm =
     (case repository vm of
        None \<Rightarrow> vm
      | Some r \<Rightarrow> vm\<lparr>state := (state vm)(r := None)\<rparr>)"

definition setLoadMore :: "'vm SCMHistoryViewModel \<Rightarrow> ISCMRepository \<Rightarrow> bool \<Rightarrow> 'vm SCMHistoryViewModel" where
  "setLoadMore vm r lm =
     (case state vm r of
        None \<Rightarrow> vm
      | Some s \<Rightarrow> vm\<lparr>state := (state vm)(r \<mapsto> s\<lparr>loadMore := lm\<rparr>)\<rparr>)"

definition getGraphColorMap ::
  "'vm SCMHistoryViewModel \<Rightarrow> HistoryItemGroup \<Rightarrow> (string \<times> ColorIdentifier) list" where
  "getGraphColorMap vm g =
     (let m0 = [(g_name g, historyItemGroupLocal)];
          m1 = (case g_remote g of
                  Some rm \<Rightarrow> mapSet m0 (r_name rm) historyItemGroupRemote
                | None \<Rightarrow> m0);
          m2 = (case g_base g of
                  Some b \<Rightarrow> mapSet m1 (r_name b) historyItemGroupBase
                | None \<Rightarrow> m1)
      in if historyItemGroupFilterValue vm = FilterAll then mapSet m2 ''*'' (ColorId []) else m2)"

text \<open>The last statement of \<open>getHistoryItems\<close>: the coloured view models as tree elements.\<close>

definition toTreeElements ::
  "'vm SCMHistoryViewModel \<Rightarrow> ISCMRepository \<Rightarrow> HistoryItemGroup \<Rightarrow> HistoryItem list
     \<Rightarrow> 'vm SCMHistoryItemViewModelTreeElement list" where
  "toTreeElements vm r g its =
     map (\<lambda>m. \<lparr>elementRepository = r, historyItemViewModel = m\<rparr>)
       (toISCMHistoryItemViewModelArray vm its (getGraphColorMap vm g))"

definition getHistoryItems :: "'vm SCMHistoryViewModel \<Rightarrow> 'vm Outcome" where
  "getHistoryItems vm =
     (case repository vm of
        None \<Rightarrow> \<lparr>providerCalls = [], viewModel = vm, settled = Inr []\<rparr>
      | Some r \<Rightarrow>
          (let st = state vm r;
               historyProvider = historyProviderOf vm r;
               group = (case st of
                          Some s \<Rightarrow> Some (stateCurrentHistoryItemGroup s)
                        | None \<Rightarrow>
                            (case historyProvider of
                               Some hp \<Rightarrow> scmCurrentHistoryItemGroup hp
                             | None \<Rightarrow> None))
           in case (historyProvider, group) of
                (Some hp, Some g) \<Rightarrow>
                  (if (case st of None \<Rightarrow> True | Some s \<Rightarrow> loadMore s) then
                     (let existingHistoryItems = (case st of Some s \<Rightarrow> items s | None \<Rightarrow> []);
                          request = \<lparr>historyItemGroupIds = Some (historyItemGroupFilter vm),
                                     limit = LimitNumber (clamp (pageSize vm) 1 1000),
                                     skip = Some (length existingHistoryItems)\<rparr>
                      in case scmProvideHistoryItems hp request of
                           Inl err \<Rightarrow> \<lparr>providerCalls = [request], viewModel = vm, settled = Inl err\<rparr>
                         | Inr page \<Rightarrow>
                             (let historyItems = orElse page [];
                                  st' = \<lparr>stateCurrentHistoryItemGroup = g,
                                         items = existingHistoryItems @ historyItems,
                                         loadMore = False\<rparr>
                              in \<lparr>providerCalls = [request],
                                  viewModel = vm\<lparr>state := (state vm)(r \<mapsto> st')\<rparr>,
                                  settled = Inr (toTreeElements vm r g (items st'))\<rparr>))
                   else
                     (case st of
                        Some s \<Rightarrow>
                          \<lparr>providerCalls = [], viewModel = vm,
                           settled = Inr (toTreeElements vm r g (items s))\<rparr>
                      | None \<Rightarrow> \<lparr>providerCalls = [], viewModel = vm, settled = Inr []\<rparr>))
              | _ \<Rightarrow> \<lparr>providerCalls = [], viewModel = vm, settled = Inr []\<rparr>))"

text \<open>The request \<open>getHistoryItems\<close> sends when \<open>n\<close> items are cached.\<close>

definition nextRequest :: "'vm SCMHistoryViewModel \<Rightarrow> nat \<Rightarrow> HistoryOptions" where
  "nextRequest vm n =
     \<lparr>historyItemGroupIds = Some (historyItemGroupFilter vm),
      limit = LimitNumber (clamp (pageSize vm) 1 1000),
      skip = Some n\<rparr>"

section \<open>The load-more callback of the view pane (class SCMHistoryViewPane)\<close>

text \<open>
  The pane holds the view model and the observable flag \<open>_repositoryLoadMore\<close>.
\<close>

record 'vm SCMHistoryViewPane =
  treeViewModel :: "'vm SCMHistoryViewModel"
  repositoryLoadMore :: bool

text \<open>
  Modelled from the spec: \<open>updateChildren\<close> of the tree widget
  (\<open>WorkbenchAsyncDataTree\<close>), which is not part of the sources. The spec says the
  presentation layer requests the children of the view model;
  \<open>SCMHistoryTreeDataSource.getChildren\<close> answers that request with one call of
  \<open>getHistoryItems\<close>, and the pane does not look at the children it returns.
\<close>

definition treeUpdateChildren :: "'vm SCMHistoryViewModel \<Rightarrow> 'vm Outcome" where
  "treeUpdateChildren vm = getHistoryItems vm"

text \<open>
  \<open>_updateChildren\<close> clears the cached state when asked to and then has the tree update
  its children.
\<close>

definition updateChildren :: "bool \<Rightarrow> 'vm SCMHistoryViewModel \<Rightarrow> 'vm Outcome" where
  "updateChildren clearCache vm =
     treeUpdateChildren (if clearCache then clearRepositoryState vm else vm)"

text \<open>
  A run of the pane: the pane itself, every request sent to a provider so far, the
  load-more tasks queued on \<open>_treeLoadMoreSequencer\<close> whose body has not started yet,
  and the load-more tasks that have passed the guard and are suspended at
  \<open>await this._updateChildren()\<close>.
\<close>

record 'vm PaneRun =
  pane :: "'vm SCMHistoryViewPane"
  requests :: "HistoryOptions list"
  queued :: "ISCMRepository list"
  awaiting :: "ISCMRepository list"

text \<open>
  The body of the task queued by \<open>_loadMoreCallback\<close> has one suspension point. Up to it:
  return when the flag is set; otherwise set the flag and mark the repository.
\<close>

definition loadMoreEntered :: "ISCMRepository \<Rightarrow> 'vm PaneRun \<Rightarrow> 'vm PaneRun" where
  "loadMoreEntered r c =
     (if repositoryLoadMore (pane c) then c
      else c\<lparr>pane := \<lparr>treeViewModel = setLoadMore (treeViewModel (pane c)) r True,
                       repositoryLoadMore = True\<rparr>,
             awaiting := awaiting c @ [r]\<rparr>)"

text \<open>
  After it: the update of the oldest suspended task settles. When it succeeded the flag
  is reset; when it threw, the statement that resets the flag is not reached.
\<close>

definition updateChildrenSettled :: "'vm PaneRun \<Rightarrow> 'vm PaneRun" where
  "updateChildrenSettled c =
     (case awaiting c of
        [] \<Rightarrow> c
      | _ # rest \<Rightarrow>
          (let out = updateChildren False (treeViewModel (pane c))
           in c\<lparr>pane := \<lparr>treeViewModel = viewModel out,
                            repositoryLoadMore =
                              (case settled out of
                                 Inr _ \<Rightarrow> False
                               | Inl _ \<Rightarrow> repositoryLoadMore (pane c))\<rparr>,
                  requests := requests c @ providerCalls out,
                  awaiting := rest\<rparr>))"

text \<open>
  \<open>_loadMoreCallback\<close> itself only queues the task on \<open>_treeLoadMoreSequencer\<close>.
\<close>

definition loadMoreCallback :: "ISCMRepository \<Rightarrow> 'vm PaneRun \<Rightarrow> 'vm PaneRun" where
  "loadMoreCallback r c = c\<lparr>queued := queued c @ [r]\<rparr>"

text \<open>
  Modelled from the spec: \<open>Sequencer\<close> of base/common/async, which is not part of the
  sources. The spec says the operations queued on a sequencer are serialized through a
  single queue: the body of the next queued task starts only when the task before it has
  settled, in the order of queueing. A task whose body returns at the guard has settled
  at once.
\<close>

definition sequencerStart :: "'vm PaneRun \<Rightarrow> 'vm PaneRun" where
  "sequencerStart c =
     (if awaiting c \<noteq> [] then c
      else (case queued c of
              [] \<Rightarrow> c
            | r # rest \<Rightarrow> loadMoreEntered r (c\<lparr>queued := rest\<rparr>)))"

text \<open>
  A run is a sequence of events: \<open>_loadMoreCallback\<close> is called for a repository, the
  sequencer starts the next queued body, the update of the suspended task settles. An
  event that cannot happen in the current state changes nothing.
\<close>

datatype PaneEvent = LoadMoreCallback ISCMRepository | TaskStarted | UpdateChildrenSettled

fun paneStep :: "PaneEvent \<Rightarrow> 'vm PaneRun \<Rightarrow> 'vm PaneRun" where
  "paneStep (LoadMoreCallback r) c = loadMoreCallback r c"
| "paneStep TaskStarted c = sequencerStart c"
| "paneStep UpdateChildrenSettled c = updateChildrenSettled c"

fun paneRun :: "PaneEvent list \<Rightarrow> 'vm PaneRun \<Rightarrow> 'vm PaneRun" where
  "paneRun [] c = c"
| "paneRun (e # es) c = paneRun es (paneStep e c)"

text \<open>The calls of \<open>_loadMoreCallback\<close> in a sequence of events.\<close>

fun callbacks :: "PaneEvent list \<Rightarrow> ISCMRepository list" where
  "callbacks [] = []"
| "callbacks (LoadMoreCallback r # es) = r # callbacks es"
| "callbacks (_ # es) = callbacks es"

section \<open>The Git provider behind the view model\<close>

text \<open>
  The extension host hands the extension's provider to the workbench: the current group
  is the provider's, and a request is answered by the provider's \<open>provideHistoryItems\<close>.
\<close>

definition gitAsProvider :: "GitHistoryProvider \<Rightarrow> ISCMHistoryProvider" where
  "gitAsProvider p =
     \<lparr>scmCurrentHistoryItemGroup = currentHistoryItemGroup p,
      scmProvideHistoryItems =
        (\<lambda>options. case returned (provideHistoryItems p options) of
                      Inl err \<Rightarrow> Inl err
                    | Inr its \<Rightarrow> Inr (Some its))\<rparr>"

section \<open>Concrete repositories, providers and view models\<close>

definition mainGroup :: HistoryItemGroup where
  "mainGroup =
     \<lparr>g_id = ''refs/heads/main'', g_name = ''main'', g_revision = None,
      g_remote = Some \<lparr>r_id = ''refs/remotes/origin/main'', r_name = ''origin/main'',
                       r_revision = None\<rparr>,
      g_base = Some \<lparr>r_id = ''refs/remotes/origin/main'', r_name = ''origin/main'',
                     r_revision = None\<rparr>\<rparr>"

definition commitOf :: "string \<Rightarrow> string list \<Rightarrow> Commit" where
  "commitOf h ps =
     \<lparr>hash = h, commitMessage = ''change'', parents = ps, authorDate = None,
      authorName = None, commitRefNames = [], shortStat = None\<rparr>"

definition threeCommits :: "Commit list" where
  "threeCommits = [commitOf ''c1'' [''c2''], commitOf ''c2'' [''c3''], commitOf ''c3'' []]"

definition threeItems :: "HistoryItem list" where
  "threeItems = map (toHistoryItem (\<lambda>m. m)) threeCommits"

text \<open>A provider that serves the three items page by page.\<close>

definition pagingProvider :: ISCMHistoryProvider where
  "pagingProvider =
     \<lparr>scmCurrentHistoryItemGroup = Some mainGroup,
      scmProvideHistoryItems =
        (\<lambda>options. Inr (Some (take (case limit options of LimitNumber n \<Rightarrow> nat n | _ \<Rightarrow> 50)
                                  (drop (orElse (skip options) 0) threeItems))))\<rparr>"

text \<open>A view model array that pairs every item id with the colour of \<open>main\<close>.\<close>

definition idWithColor :: "HistoryItem list \<Rightarrow> (string \<times> ColorIdentifier) list \<Rightarrow> (string \<times> ColorIdentifier option) list" where
  "idWithColor its m = map (\<lambda>i. (item_id i, mapGet m ''main'')) its"

definition freshViewModel :: "(string \<times> ColorIdentifier option) SCMHistoryViewModel" where
  "freshViewModel =
     \<lparr>repository = Some 0,
      historyProviderOf = (\<lambda>r. if r = 0 then Some pagingProvider else None),
      historyItemGroupFilterValue = FilterAuto,
      pageSize = 2,
      toISCMHistoryItemViewModelArray = idWithColor,
      state = Map.empty\<rparr>"

definition cachedViewModel :: "(string \<times> ColorIdentifier option) SCMHistoryViewModel" where
  "cachedViewModel =
     freshViewModel\<lparr>state := [0 \<mapsto> \<lparr>stateCurrentHistoryItemGroup = mainGroup,
                                      items = take 2 threeItems, loadMore = False\<rparr>]\<rparr>"

text \<open>A repository whose every Git call fails, and the provider and view model on it.\<close>

definition brokenRepository :: Repository where
  "brokenRepository =
     \<lparr>getCommit = (\<lambda>_. Inl (Error ''fatal: bad object'')),
      getEmptyTree = Inl (Error ''fatal: bad object''),
      repositoryLog = (\<lambda>_. Inl (Error ''fatal: bad revision'')),
      getMergeBase = (\<lambda>_ _ _. Inl (Error ''fatal: not a valid object name''))\<rparr>"

definition brokenGit :: GitHistoryProvider where
  "brokenGit =
     \<lparr>currentHistoryItemGroup = Some mainGroup, gitRepository = brokenRepository,
      ensureEmojis = Inr (), emojify = (\<lambda>m. m)\<rparr>"

definition brokenGitViewModel :: "(string \<times> ColorIdentifier option) SCMHistoryViewModel" where
  "brokenGitViewModel =
     freshViewModel\<lparr>historyProviderOf := (\<lambda>r. if r = 0 then Some (gitAsProvider brokenGit) else None)\<rparr>"

text \<open>A provider that rejects every request.\<close>

definition rejectingProvider :: ISCMHistoryProvider where
  "rejectingProvider =
     \<lparr>scmCurrentHistoryItemGroup = Some mainGroup,
      scmProvideHistoryItems = (\<lambda>_. Inl (Error ''provider failed''))\<rparr>"

definition rejectingViewModel :: "(string \<times> ColorIdentifier option) SCMHistoryViewModel" where
  "rejectingViewModel =
     freshViewModel\<lparr>historyProviderOf := (\<lambda>r. if r = 0 then Some rejectingProvider else None)\<rparr>"

text \<open>A repository with a provider but no current group (no HEAD).\<close>

definition detachedViewModel :: "(string \<times> ColorIdentifier option) SCMHistoryViewModel" where
  "detachedViewModel =
     freshViewModel\<lparr>historyProviderOf :=
       (\<lambda>r. if r = 0 then Some (pagingProvider\<lparr>scmCurrentHistoryItemGroup := None\<rparr>) else None)\<rparr>"

definition workingGit :: GitHistoryProvider where
  "workingGit =
     \<lparr>currentHistoryItemGroup = Some mainGroup,
      gitRepository = brokenRepository\<lparr>repositoryLog := (\<lambda>_. Inr threeCommits)\<rparr>,
      ensureEmojis = Inr (), emojify = (\<lambda>m. m)\<rparr>"

definition rejectingPane :: "(string \<times> ColorIdentifier option) PaneRun" where
  "rejectingPane =
     \<lparr>pane = \<lparr>treeViewModel = rejectingViewModel, repositoryLoadMore = False\<rparr>,
      requests = [], queued = [], awaiting = []\<rparr>"

definition idlePane :: "(string \<times> ColorIdentifier option) PaneRun" where
  "idlePane =
     \<lparr>pane = \<lparr>treeViewModel = cachedViewModel, repositoryLoadMore = False\<rparr>,
      requests = [], queued = [], awaiting = []\<rparr>"

section \<open>The Git history provider: properties\<close>

subsection \<open>Deduplicated ref names\<close>

lemma set_foldl_setAdd: "set (foldl setAdd acc xs) = set acc \<union> set xs"
  by (induction xs arbitrary: acc) (auto simp: setAdd_def)

lemma distinct_foldl_setAdd: "distinct acc \<Longrightarrow> distinct (foldl setAdd acc xs)"
  by (induction xs arbitrary: acc) (auto simp: setAdd_def)

lemma set_arrayFromNewSet: "set (arrayFromNewSet xs) = set xs"
  by (simp add: arrayFromNewSet_def set_foldl_setAdd)

lemma distinct_arrayFromNewSet: "distinct (arrayFromNewSet xs)"
  by (simp add: arrayFromNewSet_def distinct_foldl_setAdd)

lemma count_list_distinct: "distinct xs \<Longrightarrow> count_list xs x = (if x \<in> set xs then 1 else 0)"
  by (induction xs) auto

lemma limitLogOptions_refNames:
  "limitLogOptions repo lim lo = Inr lo' \<Longrightarrow> refNames lo' = refNames lo"
  by (auto simp: limitLogOptions_def split: Limit.splits option.splits sum.splits list.splits)

lemma skipLogOptions_refNames: "refNames (skipLogOptions s lo) = refNames lo"
  by (simp add: skipLogOptions_def split: option.splits)

lemma provideHistoryItemsTry_refNames:
  "provideHistoryItemsTry p options lo = (cs, res) \<Longrightarrow> c \<in> set cs \<Longrightarrow> refNames c = refNames lo"
  by (auto simp: provideHistoryItemsTry_def Let_def skipLogOptions_refNames
      dest: limitLogOptions_refNames split: sum.splits)

lemma provideHistoryItems_logCalls_refNames:
  assumes "historyItemGroupIds options = Some ids"
    and "c \<in> set (logCalls (provideHistoryItems p options))"
  shows "refNames c = arrayFromNewSet ids"
  using assms
  by (auto simp: provideHistoryItems_def Let_def
      dest: provideHistoryItemsTry_refNames split: option.splits prod.splits sum.splits)

text \<open>
  C10. Whatever options the Git provider is given, the ref names of a
  \<open>repository.log\<close> call it makes are the requested group ids, each exactly once, also
  when the requested list repeats an id.
\<close>

theorem provideHistoryItems_refNames_once:
  assumes "historyItemGroupIds options = Some ids"
    and "c \<in> set (logCalls (provideHistoryItems p options))"
  shows "set (refNames c) = set ids \<and> distinct (refNames c)
         \<and> (\<forall>i \<in> set ids. count_list (refNames c) i = 1)"
  using provideHistoryItems_logCalls_refNames [OF assms]
  by (simp add: set_arrayFromNewSet distinct_arrayFromNewSet count_list_distinct)

theorem provideHistoryItems_refNames_once_witness:
  "logCalls (provideHistoryItems workingGit
       \<lparr>historyItemGroupIds = Some [''main'', ''origin/main'', ''main''],
        limit = LimitNumber 2, skip = Some 0\<rparr>)
     = [\<lparr>refNames = [''main'', ''origin/main''], shortStats = Some True, maxEntries = Some 2,
         logRange = None, logSkip = Some 0, silent = Some True, maxParents = None\<rparr>]
   \<and> count_list [''main'', ''origin/main''] ''main'' = 1
   \<and> count_list [''main'', ''origin/main''] ''origin/main'' = 1"
proof -
  let ?options = "\<lparr>historyItemGroupIds = Some [''main'', ''origin/main'', ''main''],
                   limit = LimitNumber 2, skip = Some 0\<rparr>"
  let ?c = "\<lparr>refNames = [''main'', ''origin/main''], shortStats = Some True, maxEntries = Some 2,
             logRange = None, logSkip = Some 0, silent = Some True, maxParents = None\<rparr>"
  have calls: "logCalls (provideHistoryItems workingGit ?options) = [?c]"
    by (simp add: provideHistoryItems_def provideHistoryItemsTry_def limitLogOptions_def
        skipLogOptions_def arrayFromNewSet_def setAdd_def workingGit_def brokenRepository_def
        mainGroup_def)
  have ids: "historyItemGroupIds ?options = Some [''main'', ''origin/main'', ''main'']"
    by simp
  have mem: "?c \<in> set (logCalls (provideHistoryItems workingGit ?options))"
    by (simp only: calls list.set_intros)
  from provideHistoryItems_refNames_once [OF ids mem] calls
  show ?thesis by simp
qed

subsection \<open>Common-ancestor resolution\<close>

lemma resolve_returns:
  "\<exists>a. returned (resolveHistoryItemGroupCommonAncestor p ids) = Inr a"
  by (cases "resolveCommonAncestorTry p ids"; cases "snd (resolveCommonAncestorTry p ids)")
     (auto simp: resolveHistoryItemGroupCommonAncestor_def)

lemma resolve_try_failed:
  "snd (resolveCommonAncestorTry p ids) = Inl err \<Longrightarrow>
     returned (resolveHistoryItemGroupCommonAncestor p ids) = Inr None
     \<and> logged (resolveHistoryItemGroupCommonAncestor p ids) = [ResolveCommonAncestorFailed ids err]"
  by (cases "resolveCommonAncestorTry p ids")
     (auto simp: resolveHistoryItemGroupCommonAncestor_def)

lemma resolve_try_mergeBase:
  "getMergeBase (gitRepository p) i j rest = Inl err \<Longrightarrow>
     snd (resolveCommonAncestorTry p (i # j # rest)) = Inl err"
  by (simp add: resolveCommonAncestorTry_def)

text \<open>
  C9. \<open>resolveHistoryItemGroupCommonAncestor\<close> never rejects: its promise always
  resolves. When its \<open>try\<close> block throws, it resolves to \<open>undefined\<close> and one error line is
  logged; in particular so when the merge-base call for two or more group ids fails.
\<close>

theorem resolveCommonAncestor_failure_is_undefined:
  "(\<exists>a. returned (resolveHistoryItemGroupCommonAncestor p ids) = Inr a)
   \<and> (snd (resolveCommonAncestorTry p ids) = Inl err \<longrightarrow>
        returned (resolveHistoryItemGroupCommonAncestor p ids) = Inr None
        \<and> logged (resolveHistoryItemGroupCommonAncestor p ids) = [ResolveCommonAncestorFailed ids err])
   \<and> (getMergeBase (gitRepository p) i j rest = Inl err \<longrightarrow>
        returned (resolveHistoryItemGroupCommonAncestor p (i # j # rest)) = Inr None
        \<and> logged (resolveHistoryItemGroupCommonAncestor p (i # j # rest))
            = [ResolveCommonAncestorFailed (i # j # rest) err])"
  using resolve_returns [of p ids] resolve_try_failed [of p ids err]
    resolve_try_failed [OF resolve_try_mergeBase, of p i j rest err]
  by blast

theorem resolveCommonAncestor_failure_is_undefined_witness:
  "getMergeBase (gitRepository brokenGit) ''refs/heads/main'' ''refs/heads/dev'' []
     = Inl (Error ''fatal: not a valid object name'')
   \<and> snd (resolveCommonAncestorTry brokenGit [''refs/heads/main'', ''refs/heads/dev''])
     = Inl (Error ''fatal: not a valid object name'')
   \<and> returned (resolveHistoryItemGroupCommonAncestor brokenGit
        [''refs/heads/main'', ''refs/heads/dev'']) = Inr None
   \<and> logged (resolveHistoryItemGroupCommonAncestor brokenGit
        [''refs/heads/main'', ''refs/heads/dev''])
     = [ResolveCommonAncestorFailed [''refs/heads/main'', ''refs/heads/dev'']
          (Error ''fatal: not a valid object name'')]"
proof -
  have m: "getMergeBase (gitRepository brokenGit) ''refs/heads/main'' ''refs/heads/dev'' []
     = Inl (Error ''fatal: not a valid object name'')"
    by (simp add: brokenGit_def brokenRepository_def)
  have t: "snd (resolveCommonAncestorTry brokenGit [''refs/heads/main'', ''refs/heads/dev''])
     = Inl (Error ''fatal: not a valid object name'')"
    by (simp add: resolveCommonAncestorTry_def brokenGit_def brokenRepository_def)
  from resolveCommonAncestor_failure_is_undefined
    [of brokenGit "[''refs/heads/main'', ''refs/heads/dev'']"
        "Error ''fatal: not a valid object name''"
        "''refs/heads/main''" "''refs/heads/dev''" "[]"] m t
  show ?thesis by simp
qed


section \<open>The history view model: properties\<close>

lemma setLoadMore_fields [simp]:
  "repository (setLoadMore vm r lm) = repository vm"
  "historyProviderOf (setLoadMore vm r lm) = historyProviderOf vm"
  "historyItemGroupFilterValue (setLoadMore vm r lm) = historyItemGroupFilterValue vm"
  "pageSize (setLoadMore vm r lm) = pageSize vm"
  "toISCMHistoryItemViewModelArray (setLoadMore vm r lm) = toISCMHistoryItemViewModelArray vm"
  by (simp_all add: setLoadMore_def split: option.splits)

lemma setLoadMore_state:
  "state (setLoadMore vm r lm) r' =
     (if r' = r then map_option (\<lambda>s. s\<lparr>loadMore := lm\<rparr>) (state vm r) else state vm r')"
  by (simp add: setLoadMore_def split: option.splits)

lemma historyItemGroupFilter_setLoadMore [simp]:
  "historyItemGroupFilter (setLoadMore vm r lm) = historyItemGroupFilter vm"
  by (simp add: historyItemGroupFilter_def cong: Filter.case_cong option.case_cong)

lemma getGraphColorMap_setLoadMore [simp]:
  "getGraphColorMap (setLoadMore vm r lm) g = getGraphColorMap vm g"
  by (simp add: getGraphColorMap_def)

lemma toTreeElements_setLoadMore [simp]:
  "toTreeElements (setLoadMore vm r' lm) r g its = toTreeElements vm r g its"
  by (simp add: toTreeElements_def)

lemma getHistoryItems_cached:
  assumes "repository vm = Some r" "state vm r = Some s" "\<not> loadMore s"
  shows "getHistoryItems vm =
     \<lparr>providerCalls = [], viewModel = vm,
      settled = Inr (case historyProviderOf vm r of
                       None \<Rightarrow> []
                     | Some _ \<Rightarrow> toTreeElements vm r (stateCurrentHistoryItemGroup s) (items s))\<rparr>"
  using assms by (simp add: getHistoryItems_def split: option.splits)

text \<open>
  C1. With cached state whose \<open>loadMore\<close> flag is false for the active repository, a
  call of \<open>getHistoryItems\<close> sends nothing to the provider, leaves the view model as it
  is and resolves to a list; a second call, directly after it or after any
  \<open>setLoadMore(_, false)\<close>, sends nothing either and resolves to the same list.
\<close>

theorem getHistoryItems_cache_hit:
  assumes "repository vm = Some r" and "state vm r = Some s" and "\<not> loadMore s"
  shows "providerCalls (getHistoryItems vm) = []
       \<and> viewModel (getHistoryItems vm) = vm
       \<and> (\<exists>xs. settled (getHistoryItems vm) = Inr xs)
       \<and> providerCalls (getHistoryItems (viewModel (getHistoryItems vm))) = []
       \<and> settled (getHistoryItems (viewModel (getHistoryItems vm))) = settled (getHistoryItems vm)
       \<and> providerCalls (getHistoryItems (setLoadMore (viewModel (getHistoryItems vm)) r' False)) = []
       \<and> settled (getHistoryItems (setLoadMore (viewModel (getHistoryItems vm)) r' False))
           = settled (getHistoryItems vm)"
proof -
  have first: "getHistoryItems vm =
     \<lparr>providerCalls = [], viewModel = vm,
      settled = Inr (case historyProviderOf vm r of
                       None \<Rightarrow> []
                     | Some _ \<Rightarrow> toTreeElements vm r (stateCurrentHistoryItemGroup s) (items s))\<rparr>"
    by (rule getHistoryItems_cached [OF assms])
  let ?vm' = "setLoadMore vm r' False"
  have "s\<lparr>loadMore := False\<rparr> = s"
    using assms(3) by (cases s) simp
  then have st: "state ?vm' r = Some s"
    using assms by (auto simp: setLoadMore_state)
  have "repository ?vm' = Some r" using assms by simp
  from getHistoryItems_cached [OF this st assms(3)]
  have second: "getHistoryItems ?vm' =
     \<lparr>providerCalls = [], viewModel = ?vm',
      settled = Inr (case historyProviderOf vm r of
                       None \<Rightarrow> []
                     | Some _ \<Rightarrow> toTreeElements vm r (stateCurrentHistoryItemGroup s) (items s))\<rparr>"
    by (simp cong: option.case_cong)
  show ?thesis by (simp add: first second)
qed


lemma clearRepositoryState_fields [simp]:
  "repository (clearRepositoryState vm) = repository vm"
  "historyProviderOf (clearRepositoryState vm) = historyProviderOf vm"
  "historyItemGroupFilterValue (clearRepositoryState vm) = historyItemGroupFilterValue vm"
  "pageSize (clearRepositoryState vm) = pageSize vm"
  "toISCMHistoryItemViewModelArray (clearRepositoryState vm) = toISCMHistoryItemViewModelArray vm"
  by (simp_all add: clearRepositoryState_def split: option.splits)

lemma clearRepositoryState_state:
  "repository vm = Some r \<Longrightarrow> state (clearRepositoryState vm) r = None"
  by (simp add: clearRepositoryState_def)

lemma historyItemGroupFilter_clearRepositoryState [simp]:
  "historyItemGroupFilter (clearRepositoryState vm) = historyItemGroupFilter vm"
  by (simp add: historyItemGroupFilter_def cong: Filter.case_cong option.case_cong)


lemma getHistoryItems_fetch:
  assumes "repository vm = Some r" and "state vm r = Some s" and "loadMore s"
    and "historyProviderOf vm r = Some hp"
  shows "getHistoryItems vm =
     (case scmProvideHistoryItems hp (nextRequest vm (length (items s))) of
        Inl err \<Rightarrow> \<lparr>providerCalls = [nextRequest vm (length (items s))], viewModel = vm,
                    settled = Inl err\<rparr>
      | Inr page \<Rightarrow>
          \<lparr>providerCalls = [nextRequest vm (length (items s))],
           viewModel = vm\<lparr>state := (state vm)(r \<mapsto>
             \<lparr>stateCurrentHistoryItemGroup = stateCurrentHistoryItemGroup s,
              items = items s @ orElse page [], loadMore = False\<rparr>)\<rparr>,
           settled = Inr (toTreeElements vm r (stateCurrentHistoryItemGroup s)
                            (items s @ orElse page []))\<rparr>)"
  using assms by (simp add: getHistoryItems_def nextRequest_def Let_def split: sum.splits)

lemma getHistoryItems_first:
  assumes "repository vm = Some r" and "state vm r = None"
    and "historyProviderOf vm r = Some hp" and "scmCurrentHistoryItemGroup hp = Some g"
  shows "getHistoryItems vm =
     (case scmProvideHistoryItems hp (nextRequest vm 0) of
        Inl err \<Rightarrow> \<lparr>providerCalls = [nextRequest vm 0], viewModel = vm, settled = Inl err\<rparr>
      | Inr page \<Rightarrow>
          \<lparr>providerCalls = [nextRequest vm 0],
           viewModel = vm\<lparr>state := (state vm)(r \<mapsto>
             \<lparr>stateCurrentHistoryItemGroup = g, items = orElse page [], loadMore = False\<rparr>)\<rparr>,
           settled = Inr (toTreeElements vm r g (orElse page []))\<rparr>)"
  using assms by (simp add: getHistoryItems_def nextRequest_def Let_def split: sum.splits)

lemma getHistoryItems_nothing:
  assumes "repository vm = None
     \<or> (\<exists>r. repository vm = Some r \<and>
           (historyProviderOf vm r = None
            \<or> (state vm r = None \<and>
                (\<exists>hp. historyProviderOf vm r = Some hp \<and> scmCurrentHistoryItemGroup hp = None))))"
  shows "getHistoryItems vm = \<lparr>providerCalls = [], viewModel = vm, settled = Inr []\<rparr>"
  using assms by (auto simp: getHistoryItems_def Let_def split: option.splits)

lemma threeItems_ids: "map item_id threeItems = [''c1'', ''c2'', ''c3'']"
  by (simp add: threeItems_def threeCommits_def toHistoryItem_def commitOf_def Let_def)

lemma threeItems_length: "length threeItems = 3"
  by (simp add: threeItems_def threeCommits_def)

lemma idWithColor_ids: "idWithColor its m = map (\<lambda>i. (i, mapGet m ''main'')) (map item_id its)"
  by (simp add: idWithColor_def)

theorem getHistoryItems_cache_hit_witness:
  "repository cachedViewModel = Some 0
   \<and> state cachedViewModel 0 = Some \<lparr>stateCurrentHistoryItemGroup = mainGroup,
                                       items = take 2 threeItems, loadMore = False\<rparr>
   \<and> providerCalls (getHistoryItems (viewModel (getHistoryItems cachedViewModel))) = []
   \<and> settled (getHistoryItems (viewModel (getHistoryItems cachedViewModel)))
       = Inr [\<lparr>elementRepository = 0, historyItemViewModel = (''c1'', Some historyItemGroupLocal)\<rparr>,
              \<lparr>elementRepository = 0, historyItemViewModel = (''c2'', Some historyItemGroupLocal)\<rparr>]"
proof -
  let ?s = "\<lparr>stateCurrentHistoryItemGroup = mainGroup, items = take 2 threeItems, loadMore = False\<rparr>"
  have r: "repository cachedViewModel = Some 0"
    by (simp add: cachedViewModel_def freshViewModel_def)
  have s: "state cachedViewModel 0 = Some ?s"
    by (simp add: cachedViewModel_def freshViewModel_def)
  have l: "\<not> loadMore ?s" by simp
  have first: "settled (getHistoryItems cachedViewModel)
       = Inr [\<lparr>elementRepository = 0, historyItemViewModel = (''c1'', Some historyItemGroupLocal)\<rparr>,
              \<lparr>elementRepository = 0, historyItemViewModel = (''c2'', Some historyItemGroupLocal)\<rparr>]"
    by (simp add: getHistoryItems_def cachedViewModel_def freshViewModel_def toTreeElements_def
        getGraphColorMap_def mainGroup_def idWithColor_ids mapGet_def threeItems_ids
        take_map [symmetric] pagingProvider_def)
  from getHistoryItems_cache_hit [OF r s l, of 0] first r s
  show ?thesis by simp
qed

text \<open>
  C2. Let the active repository have \<open>N\<close> cached items and a provider that answers the
  next request with a page. After \<open>setLoadMore(repository, true)\<close> the next
  \<open>getHistoryItems\<close> sends exactly that request, with \<open>skip = N\<close>; the cached items
  become the old ones followed by the page, so their number is \<open>N\<close> plus the size of
  the page and the first \<open>N\<close> are unchanged; and the call resolves to the view models of
  that list. The view model array is computed by \<open>toISCMHistoryItemViewModelArray\<close>:
  when it yields one view model per item the returned list has \<open>N\<close> plus the size of the
  page elements, and when it extends its output as its input is extended the returned
  list starts with the list returned for the \<open>N\<close> cached items.
\<close>

theorem getHistoryItems_load_more_appends:
  assumes "repository vm = Some r" and "state vm r = Some s"
    and "historyProviderOf vm r = Some hp"
    and "scmProvideHistoryItems hp
           \<lparr>historyItemGroupIds = Some (historyItemGroupFilter vm),
            limit = LimitNumber (clamp (pageSize vm) 1 1000),
            skip = Some (length (items s))\<rparr> = Inr page"
  shows "providerCalls (getHistoryItems (setLoadMore vm r True))
           = [\<lparr>historyItemGroupIds = Some (historyItemGroupFilter vm),
               limit = LimitNumber (clamp (pageSize vm) 1 1000),
               skip = Some (length (items s))\<rparr>]
       \<and> (\<exists>s'. state (viewModel (getHistoryItems (setLoadMore vm r True))) r = Some s'
                \<and> items s' = items s @ orElse page []
                \<and> length (items s') = length (items s) + length (orElse page [])
                \<and> take (length (items s)) (items s') = items s
                \<and> \<not> loadMore s')
       \<and> settled (getHistoryItems (setLoadMore vm r True))
           = Inr (toTreeElements vm r (stateCurrentHistoryItemGroup s) (items s @ orElse page []))
       \<and> ((\<forall>xs m. length (toISCMHistoryItemViewModelArray vm xs m) = length xs) \<longrightarrow>
             (\<exists>ys. settled (getHistoryItems (setLoadMore vm r True)) = Inr ys
                   \<and> length ys = length (items s) + length (orElse page [])))
       \<and> ((\<forall>xs zs m. \<exists>rest. toISCMHistoryItemViewModelArray vm (xs @ zs) m
                                 = toISCMHistoryItemViewModelArray vm xs m @ rest) \<longrightarrow>
             (\<exists>rest. settled (getHistoryItems (setLoadMore vm r True))
                       = Inr (toTreeElements vm r (stateCurrentHistoryItemGroup s) (items s) @ rest)))"
proof -
  let ?vm = "setLoadMore vm r True"
  let ?s = "s\<lparr>loadMore := True\<rparr>"
  let ?g = "stateCurrentHistoryItemGroup s"
  let ?new = "orElse page []"
  have r: "repository ?vm = Some r" using assms(1) by simp
  have s: "state ?vm r = Some ?s" using assms(2) by (simp add: setLoadMore_state)
  have l: "loadMore ?s" by simp
  have hp: "historyProviderOf ?vm r = Some hp" using assms(3) by simp
  have req: "scmProvideHistoryItems hp (nextRequest ?vm (length (items ?s))) = Inr page"
    using assms(4) by (simp add: nextRequest_def)
  have out: "getHistoryItems ?vm =
     \<lparr>providerCalls = [nextRequest ?vm (length (items s))],
      viewModel = ?vm\<lparr>state := (state ?vm)(r \<mapsto>
        \<lparr>stateCurrentHistoryItemGroup = ?g, items = items s @ ?new, loadMore = False\<rparr>)\<rparr>,
      settled = Inr (toTreeElements vm r ?g (items s @ ?new))\<rparr>"
    using getHistoryItems_fetch [OF r s l hp] req by simp
  have c1: "providerCalls (getHistoryItems ?vm)
           = [\<lparr>historyItemGroupIds = Some (historyItemGroupFilter vm),
               limit = LimitNumber (clamp (pageSize vm) 1 1000),
               skip = Some (length (items s))\<rparr>]"
    by (simp add: out nextRequest_def)
  have c2: "\<exists>s'. state (viewModel (getHistoryItems ?vm)) r = Some s'
                \<and> items s' = items s @ ?new
                \<and> length (items s') = length (items s) + length ?new
                \<and> take (length (items s)) (items s') = items s
                \<and> \<not> loadMore s'"
    by (simp add: out)
  have c3: "settled (getHistoryItems ?vm) = Inr (toTreeElements vm r ?g (items s @ ?new))"
    by (simp add: out)
  have c4: "(\<forall>xs m. length (toISCMHistoryItemViewModelArray vm xs m) = length xs) \<longrightarrow>
             (\<exists>ys. settled (getHistoryItems ?vm) = Inr ys
                   \<and> length ys = length (items s) + length ?new)"
    by (simp add: c3 toTreeElements_def)
  have c5: "(\<forall>xs zs m. \<exists>rest. toISCMHistoryItemViewModelArray vm (xs @ zs) m
                                 = toISCMHistoryItemViewModelArray vm xs m @ rest) \<longrightarrow>
             (\<exists>rest. settled (getHistoryItems ?vm) = Inr (toTreeElements vm r ?g (items s) @ rest))"
  proof
    assume stable: "\<forall>xs zs m. \<exists>rest. toISCMHistoryItemViewModelArray vm (xs @ zs) m
                                 = toISCMHistoryItemViewModelArray vm xs m @ rest"
    then obtain rest where
      "toISCMHistoryItemViewModelArray vm (items s @ ?new) (getGraphColorMap vm ?g)
         = toISCMHistoryItemViewModelArray vm (items s) (getGraphColorMap vm ?g) @ rest"
      by blast
    then have "toTreeElements vm r ?g (items s @ ?new)
         = toTreeElements vm r ?g (items s)
           @ map (\<lambda>m. \<lparr>elementRepository = r, historyItemViewModel = m\<rparr>) rest"
      by (simp add: toTreeElements_def)
    then show "\<exists>rest. settled (getHistoryItems ?vm) = Inr (toTreeElements vm r ?g (items s) @ rest)"
      using c3 by auto
  qed
  from c1 c2 c3 c4 c5 show ?thesis by blast
qed

lemma pagingProvider_page3:
  "scmProvideHistoryItems pagingProvider
     \<lparr>historyItemGroupIds = ids, limit = LimitNumber 2, skip = Some 2\<rparr> = Inr (Some (drop 2 threeItems))"
  by (simp add: pagingProvider_def orElse_def threeItems_length)

lemma freshViewModel_filter:
  "historyItemGroupFilter freshViewModel
     = [''refs/heads/main'', ''refs/remotes/origin/main'', ''refs/remotes/origin/main'']"
  by (simp add: historyItemGroupFilter_def freshViewModel_def pagingProvider_def mainGroup_def orElse_def)

lemma cachedViewModel_filter:
  "historyItemGroupFilter cachedViewModel
     = [''refs/heads/main'', ''refs/remotes/origin/main'', ''refs/remotes/origin/main'']"
  by (simp add: historyItemGroupFilter_def cachedViewModel_def freshViewModel_def pagingProvider_def mainGroup_def orElse_def)

theorem getHistoryItems_load_more_appends_witness:
  "repository cachedViewModel = Some 0
   \<and> length (items \<lparr>stateCurrentHistoryItemGroup = mainGroup, items = take 2 threeItems,
                     loadMore = False\<rparr>) = 2
   \<and> length (orElse (Some (drop 2 threeItems)) []) = 1
   \<and> (\<forall>xs m. length (toISCMHistoryItemViewModelArray cachedViewModel xs m) = length xs)
   \<and> (\<exists>ys. settled (getHistoryItems (setLoadMore cachedViewModel 0 True)) = Inr ys \<and> length ys = 3)
   \<and> (\<exists>rest. settled (getHistoryItems (setLoadMore cachedViewModel 0 True))
         = Inr (toTreeElements cachedViewModel 0 mainGroup (take 2 threeItems) @ rest))"
proof -
  let ?s = "\<lparr>stateCurrentHistoryItemGroup = mainGroup, items = take 2 threeItems, loadMore = False\<rparr>"
  have r: "repository cachedViewModel = Some 0"
    by (simp add: cachedViewModel_def freshViewModel_def)
  have s: "state cachedViewModel 0 = Some ?s"
    by (simp add: cachedViewModel_def freshViewModel_def)
  have hp: "historyProviderOf cachedViewModel 0 = Some pagingProvider"
    by (simp add: cachedViewModel_def freshViewModel_def)
  have n: "length (items ?s) = 2" by (simp add: threeItems_length)
  have k: "length (orElse (Some (drop 2 threeItems)) []) = 1"
    by (simp add: orElse_def threeItems_length)
  have page: "scmProvideHistoryItems pagingProvider
           \<lparr>historyItemGroupIds = Some (historyItemGroupFilter cachedViewModel),
            limit = LimitNumber (clamp (pageSize cachedViewModel) 1 1000),
            skip = Some (length (items ?s))\<rparr> = Inr (Some (drop 2 threeItems))"
    using pagingProvider_page3
    by (simp add: clamp_def cachedViewModel_def freshViewModel_def threeItems_length)
  have len: "\<forall>xs m. length (toISCMHistoryItemViewModelArray cachedViewModel xs m) = length xs"
    by (simp add: cachedViewModel_def freshViewModel_def idWithColor_def)
  have stable: "\<forall>xs zs m. \<exists>rest. toISCMHistoryItemViewModelArray cachedViewModel (xs @ zs) m
                                 = toISCMHistoryItemViewModelArray cachedViewModel xs m @ rest"
    by (simp add: cachedViewModel_def freshViewModel_def idWithColor_def)
  note appended = getHistoryItems_load_more_appends [OF r s hp page]
  from appended len
  have "\<exists>ys. settled (getHistoryItems (setLoadMore cachedViewModel 0 True)) = Inr ys
          \<and> length ys = length (items ?s) + length (orElse (Some (drop 2 threeItems)) [])"
    by blast
  then have e1: "\<exists>ys. settled (getHistoryItems (setLoadMore cachedViewModel 0 True)) = Inr ys
          \<and> length ys = 3"
    by (simp add: threeItems_length orElse_def)
  from appended stable
  have "\<exists>rest. settled (getHistoryItems (setLoadMore cachedViewModel 0 True))
         = Inr (toTreeElements cachedViewModel 0 (stateCurrentHistoryItemGroup ?s) (items ?s) @ rest)"
    by blast
  then have e2: "\<exists>rest. settled (getHistoryItems (setLoadMore cachedViewModel 0 True))
         = Inr (toTreeElements cachedViewModel 0 mainGroup (take 2 threeItems) @ rest)"
    by simp
  from r n k len e1 e2 show ?thesis by blast
qed

lemma getHistoryItems_call_failed:
  assumes "req \<in> set (providerCalls (getHistoryItems vm))" and "repository vm = Some r"
    and "historyProviderOf vm r = Some hp" and "scmProvideHistoryItems hp req = Inl err"
  shows "getHistoryItems vm = \<lparr>providerCalls = [req], viewModel = vm, settled = Inl err\<rparr>"
  using assms
  by (auto simp: getHistoryItems_def Let_def split: option.splits if_splits sum.splits)

lemma getHistoryItems_call_shape:
  assumes "req \<in> set (providerCalls (getHistoryItems vm))"
  shows "\<exists>r. repository vm = Some r
           \<and> req = nextRequest vm (case state vm r of Some s \<Rightarrow> length (items s) | None \<Rightarrow> 0)"
  using assms
  by (auto simp: getHistoryItems_def nextRequest_def Let_def
      split: option.splits if_splits sum.splits)

lemma provideHistoryItemsTry_log_failed:
  assumes "provideHistoryItemsTry p options lo = (cs, res)" and "c \<in> set cs"
    and "repositoryLog (gitRepository p) c = Inl err"
  shows "cs = [c] \<and> res = Inl err"
  using assms
  by (auto simp: provideHistoryItemsTry_def Let_def split: sum.splits)

lemma provideHistoryItems_log_failed:
  assumes "c \<in> set (logCalls (provideHistoryItems p options))"
    and "repositoryLog (gitRepository p) c = Inl err"
  shows "returned (provideHistoryItems p options) = Inr []
       \<and> logged (provideHistoryItems p options) = [ProvideHistoryItemsFailed options err]
       \<and> logCalls (provideHistoryItems p options) = [c]"
  using assms
  by (auto simp: provideHistoryItems_def Let_def
      dest: provideHistoryItemsTry_log_failed split: option.splits prod.splits sum.splits)

text \<open>
  C3, as stated, fails on the Git provider. Here every \<open>repository.log\<close> call fails; the
  provider made the call, yet \<open>getHistoryItems\<close> resolves to the empty list instead of
  rejecting, and the empty page is cached with the \<open>loadMore\<close> flag cleared.
\<close>

theorem git_log_failure_not_propagated:
  "logCalls (provideHistoryItems brokenGit
       \<lparr>historyItemGroupIds = Some [''refs/heads/main'', ''refs/remotes/origin/main'',
                                    ''refs/remotes/origin/main''],
        limit = LimitNumber 2, skip = Some 0\<rparr>)
     = [\<lparr>refNames = [''refs/heads/main'', ''refs/remotes/origin/main''],
         shortStats = Some True, maxEntries = Some 2, logRange = None, logSkip = Some 0,
         silent = Some True, maxParents = None\<rparr>]
   \<and> repositoryLog (gitRepository brokenGit)
        \<lparr>refNames = [''refs/heads/main'', ''refs/remotes/origin/main''],
         shortStats = Some True, maxEntries = Some 2, logRange = None, logSkip = Some 0,
         silent = Some True, maxParents = None\<rparr>
       = Inl (Error ''fatal: bad revision'')
   \<and> providerCalls (getHistoryItems brokenGitViewModel)
       = [\<lparr>historyItemGroupIds = Some [''refs/heads/main'', ''refs/remotes/origin/main'',
                                       ''refs/remotes/origin/main''],
           limit = LimitNumber 2, skip = Some 0\<rparr>]
   \<and> settled (getHistoryItems brokenGitViewModel) = Inr []
   \<and> state (viewModel (getHistoryItems brokenGitViewModel)) 0
       = Some \<lparr>stateCurrentHistoryItemGroup = mainGroup, items = [], loadMore = False\<rparr>"
  by (simp add: getHistoryItems_def brokenGitViewModel_def freshViewModel_def gitAsProvider_def
      provideHistoryItems_def provideHistoryItemsTry_def limitLogOptions_def skipLogOptions_def
      arrayFromNewSet_def setAdd_def brokenGit_def brokenRepository_def historyItemGroupFilter_def
      mainGroup_def orElse_def clamp_def toTreeElements_def idWithColor_def)

text \<open>
  C3, amended. When the provider's \<open>provideHistoryItems\<close> promise itself rejects, the
  rejection reaches the caller of \<open>getHistoryItems\<close>, the view model (the cache
  included) is left as it was, and that one request is the only one sent. The Git
  provider does not reject when its \<open>repository.log\<close> call fails: it logs one error
  line and resolves to the empty list.
\<close>

theorem provider_failure_propagation:
  "(req \<in> set (providerCalls (getHistoryItems vm)) \<and> repository vm = Some r
      \<and> historyProviderOf vm r = Some hp \<and> scmProvideHistoryItems hp req = Inl err
    \<longrightarrow> settled (getHistoryItems vm) = Inl err
        \<and> viewModel (getHistoryItems vm) = vm
        \<and> providerCalls (getHistoryItems vm) = [req])
   \<and> (c \<in> set (logCalls (provideHistoryItems p options))
        \<and> repositoryLog (gitRepository p) c = Inl gitErr
    \<longrightarrow> returned (provideHistoryItems p options) = Inr []
        \<and> logged (provideHistoryItems p options) = [ProvideHistoryItemsFailed options gitErr]
        \<and> logCalls (provideHistoryItems p options) = [c])"
proof (intro conjI impI)
  assume a: "req \<in> set (providerCalls (getHistoryItems vm)) \<and> repository vm = Some r
      \<and> historyProviderOf vm r = Some hp \<and> scmProvideHistoryItems hp req = Inl err"
  then have out: "getHistoryItems vm = \<lparr>providerCalls = [req], viewModel = vm, settled = Inl err\<rparr>"
    using getHistoryItems_call_failed by blast
  show "settled (getHistoryItems vm) = Inl err" by (simp add: out)
  show "viewModel (getHistoryItems vm) = vm" by (simp add: out)
  show "providerCalls (getHistoryItems vm) = [req]" by (simp add: out)
next
  assume b: "c \<in> set (logCalls (provideHistoryItems p options))
        \<and> repositoryLog (gitRepository p) c = Inl gitErr"
  then have *: "returned (provideHistoryItems p options) = Inr []
       \<and> logged (provideHistoryItems p options) = [ProvideHistoryItemsFailed options gitErr]
       \<and> logCalls (provideHistoryItems p options) = [c]"
    using provideHistoryItems_log_failed by blast
  from * show "returned (provideHistoryItems p options) = Inr []" by simp
  from * show "logged (provideHistoryItems p options) = [ProvideHistoryItemsFailed options gitErr]" by simp
  from * show "logCalls (provideHistoryItems p options) = [c]" by simp
qed

theorem provider_failure_propagation_witness:
  "providerCalls (getHistoryItems rejectingViewModel)
     = [\<lparr>historyItemGroupIds = Some [''refs/heads/main'', ''refs/remotes/origin/main'',
                                     ''refs/remotes/origin/main''],
         limit = LimitNumber 2, skip = Some 0\<rparr>]
   \<and> settled (getHistoryItems rejectingViewModel) = Inl (Error ''provider failed'')
   \<and> state (viewModel (getHistoryItems rejectingViewModel)) 0 = None
   \<and> returned (provideHistoryItems brokenGit
        \<lparr>historyItemGroupIds = Some [''refs/heads/main''], limit = LimitNumber 2, skip = Some 0\<rparr>)
       = Inr []
   \<and> logged (provideHistoryItems brokenGit
        \<lparr>historyItemGroupIds = Some [''refs/heads/main''], limit = LimitNumber 2, skip = Some 0\<rparr>)
       = [ProvideHistoryItemsFailed
            \<lparr>historyItemGroupIds = Some [''refs/heads/main''], limit = LimitNumber 2, skip = Some 0\<rparr>
            (Error ''fatal: bad revision'')]"
proof -
  let ?req = "\<lparr>historyItemGroupIds = Some [''refs/heads/main'', ''refs/remotes/origin/main'',
                                     ''refs/remotes/origin/main''],
               limit = LimitNumber 2, skip = Some 0\<rparr>"
  let ?options = "\<lparr>historyItemGroupIds = Some [''refs/heads/main''], limit = LimitNumber 2,
                   skip = Some 0\<rparr>"
  let ?c = "\<lparr>refNames = [''refs/heads/main''], shortStats = Some True, maxEntries = Some 2,
             logRange = None, logSkip = Some 0, silent = Some True, maxParents = None\<rparr>"
  have calls: "providerCalls (getHistoryItems rejectingViewModel) = [?req]"
    by (simp add: getHistoryItems_def rejectingViewModel_def freshViewModel_def
        rejectingProvider_def historyItemGroupFilter_def mainGroup_def orElse_def clamp_def)
  have mem: "?req \<in> set (providerCalls (getHistoryItems rejectingViewModel))"
    by (simp only: calls list.set_intros)
  have r: "repository rejectingViewModel = Some 0"
    by (simp add: rejectingViewModel_def freshViewModel_def)
  have hp: "historyProviderOf rejectingViewModel 0 = Some rejectingProvider"
    by (simp add: rejectingViewModel_def freshViewModel_def)
  have rej: "scmProvideHistoryItems rejectingProvider ?req = Inl (Error ''provider failed'')"
    by (simp add: rejectingProvider_def)
  have st: "state rejectingViewModel 0 = None"
    by (simp add: rejectingViewModel_def freshViewModel_def)
  have logs: "logCalls (provideHistoryItems brokenGit ?options) = [?c]"
    by (simp add: provideHistoryItems_def provideHistoryItemsTry_def limitLogOptions_def
        skipLogOptions_def arrayFromNewSet_def setAdd_def brokenGit_def brokenRepository_def
        mainGroup_def)
  have cmem: "?c \<in> set (logCalls (provideHistoryItems brokenGit ?options))"
    by (simp only: logs list.set_intros)
  have fails: "repositoryLog (gitRepository brokenGit) ?c = Inl (Error ''fatal: bad revision'')"
    by (simp add: brokenGit_def brokenRepository_def)
  note both = provider_failure_propagation
    [of ?req rejectingViewModel 0 rejectingProvider "Error ''provider failed''"
        ?c brokenGit ?options "Error ''fatal: bad revision''"]
  from both mem r hp rej
  have a: "settled (getHistoryItems rejectingViewModel) = Inl (Error ''provider failed'')
        \<and> viewModel (getHistoryItems rejectingViewModel) = rejectingViewModel"
    by blast
  from both cmem fails
  have b: "returned (provideHistoryItems brokenGit ?options) = Inr []
        \<and> logged (provideHistoryItems brokenGit ?options)
            = [ProvideHistoryItemsFailed ?options (Error ''fatal: bad revision'')]"
    by blast
  from a st have "state (viewModel (getHistoryItems rejectingViewModel)) 0 = None"
    by simp
  with calls a b show ?thesis by blast
qed

lemma mapSet_entriesFor_same:
  "entriesFor m k = [(k, v)] \<Longrightarrow> entriesFor (mapSet m k v') k = [(k, v')]"
  by (induction m k v' rule: mapSet.induct) (auto simp: entriesFor_def split: if_splits)

lemma mapSet_entriesFor_absent:
  "entriesFor m k = [] \<Longrightarrow> entriesFor (mapSet m k v') k = [(k, v')]"
  by (induction m k v' rule: mapSet.induct) (auto simp: entriesFor_def split: if_splits)

lemma mapSet_entriesFor_other:
  "k' \<noteq> k \<Longrightarrow> entriesFor (mapSet m k' v') k = entriesFor m k"
  by (induction m k' v' rule: mapSet.induct) (auto simp: entriesFor_def)

lemma mapSet_mapGet: "mapGet (mapSet m k v) k' = (if k' = k then Some v else mapGet m k')"
  by (induction m k v rule: mapSet.induct) (auto simp: mapGet_def)

lemma entriesFor_single_cases:
  "entriesFor [(a, x)] k = (if a = k then [(a, x)] else [])"
  by (simp add: entriesFor_def)

text \<open>
  C4. When the remote and the base of the current group have the same name, the colour
  map has exactly one entry for that name and its colour is the base colour. The wildcard
  entry is written last under the key \<open>*\<close> and only when the filter is \<open>all\<close>; the
  field \<open>_historyItemGroupFilter\<close> starts as \<open>auto\<close> and nothing in the sources assigns
  it, so the hypothesis on the filter holds in every state the view model reaches.
\<close>

theorem getGraphColorMap_base_wins:
  assumes "g_remote g = Some rm" and "g_base g = Some b" and "r_name rm = r_name b"
    and "historyItemGroupFilterValue vm \<noteq> FilterAll \<or> r_name b \<noteq> ''*''"
  shows "entriesFor (getGraphColorMap vm g) (r_name b) = [(r_name b, historyItemGroupBase)]
       \<and> mapGet (getGraphColorMap vm g) (r_name b) = Some historyItemGroupBase"
proof -
  let ?m0 = "[(g_name g, historyItemGroupLocal)]"
  let ?m1 = "mapSet ?m0 (r_name b) historyItemGroupRemote"
  let ?m2 = "mapSet ?m1 (r_name b) historyItemGroupBase"
  have e1: "entriesFor ?m1 (r_name b) = [(r_name b, historyItemGroupRemote)]"
    by (simp add: entriesFor_def)
  have e2: "entriesFor ?m2 (r_name b) = [(r_name b, historyItemGroupBase)]"
    by (rule mapSet_entriesFor_same [OF e1])
  have g2: "mapGet ?m2 (r_name b) = Some historyItemGroupBase"
    by (simp add: mapSet_mapGet)
  show ?thesis
  proof (cases "historyItemGroupFilterValue vm = FilterAll")
    case False
    then have "getGraphColorMap vm g = ?m2"
      using assms by (simp add: getGraphColorMap_def)
    with e2 g2 show ?thesis by simp
  next
    case True
    with assms(4) have ne: "''*'' \<noteq> r_name b" by auto
    from True have "getGraphColorMap vm g = mapSet ?m2 ''*'' (ColorId [])"
      using assms by (simp add: getGraphColorMap_def)
    with e2 g2 ne show ?thesis
      by (simp add: mapSet_entriesFor_other mapSet_mapGet del: mapSet.simps)
  qed
qed

theorem getGraphColorMap_base_wins_witness:
  "g_remote mainGroup = Some \<lparr>r_id = ''refs/remotes/origin/main'', r_name = ''origin/main'', r_revision = None\<rparr>
   \<and> g_base mainGroup = Some \<lparr>r_id = ''refs/remotes/origin/main'', r_name = ''origin/main'', r_revision = None\<rparr>
   \<and> historyItemGroupFilterValue freshViewModel \<noteq> FilterAll
   \<and> getGraphColorMap freshViewModel mainGroup
       = [(''main'', historyItemGroupLocal), (''origin/main'', historyItemGroupBase)]
   \<and> entriesFor (getGraphColorMap freshViewModel mainGroup) ''origin/main''
       = [(''origin/main'', historyItemGroupBase)]
   \<and> mapGet (getGraphColorMap freshViewModel mainGroup) ''origin/main'' = Some historyItemGroupBase"
proof -
  let ?ref = "\<lparr>r_id = ''refs/remotes/origin/main'', r_name = ''origin/main'', r_revision = None\<rparr>"
  have rm: "g_remote mainGroup = Some ?ref" by (simp add: mainGroup_def)
  have b: "g_base mainGroup = Some ?ref" by (simp add: mainGroup_def)
  have same: "r_name ?ref = r_name ?ref" by simp
  have f: "historyItemGroupFilterValue freshViewModel \<noteq> FilterAll"
    by (simp add: freshViewModel_def)
  then have f': "historyItemGroupFilterValue freshViewModel \<noteq> FilterAll \<or> r_name ?ref \<noteq> ''*''"
    by simp
  have m: "getGraphColorMap freshViewModel mainGroup
       = [(''main'', historyItemGroupLocal), (''origin/main'', historyItemGroupBase)]"
    by (simp add: getGraphColorMap_def mainGroup_def freshViewModel_def)
  from getGraphColorMap_base_wins [OF rm b same f'] rm b f m
  show ?thesis by simp
qed

text \<open>
  C6, as stated, fails for a repository whose provider has no current group: after
  \<open>clearRepositoryState\<close> the next \<open>getHistoryItems\<close> sends no request at all.
\<close>

theorem clear_then_no_group_no_call:
  "repository detachedViewModel = Some 0
   \<and> historyProviderOf detachedViewModel 0
       = Some (pagingProvider\<lparr>scmCurrentHistoryItemGroup := None\<rparr>)
   \<and> providerCalls (getHistoryItems (clearRepositoryState detachedViewModel)) = []
   \<and> settled (getHistoryItems (clearRepositoryState detachedViewModel)) = Inr []"
  by (simp add: getHistoryItems_def clearRepositoryState_def detachedViewModel_def
      freshViewModel_def pagingProvider_def)

text \<open>
  C6, amended. For the active repository, after \<open>clearRepositoryState\<close> the next
  \<open>getHistoryItems\<close> sends exactly one request, with \<open>skip = 0\<close>, when the repository
  has a history provider with a current group, and no request otherwise.
\<close>

theorem clearRepositoryState_refetch_from_zero:
  assumes "repository vm = Some r"
  shows "providerCalls (getHistoryItems (clearRepositoryState vm)) =
     (case historyProviderOf vm r of
        None \<Rightarrow> []
      | Some hp \<Rightarrow>
          (case scmCurrentHistoryItemGroup hp of
             None \<Rightarrow> []
           | Some g \<Rightarrow>
               [\<lparr>historyItemGroupIds = Some (historyItemGroupFilter vm),
                 limit = LimitNumber (clamp (pageSize vm) 1 1000),
                 skip = Some 0\<rparr>]))"
proof -
  let ?vm = "clearRepositoryState vm"
  have r: "repository ?vm = Some r" using assms by simp
  have s: "state ?vm r = None" using assms by (rule clearRepositoryState_state)
  show ?thesis
  proof (cases "historyProviderOf vm r")
    case None
    then have "getHistoryItems ?vm = \<lparr>providerCalls = [], viewModel = ?vm, settled = Inr []\<rparr>"
      using r by (intro getHistoryItems_nothing) simp
    with None show ?thesis by simp
  next
    case (Some hp)
    show ?thesis
    proof (cases "scmCurrentHistoryItemGroup hp")
      case None
      with Some r s
      have "getHistoryItems ?vm = \<lparr>providerCalls = [], viewModel = ?vm, settled = Inr []\<rparr>"
        by (intro getHistoryItems_nothing) simp
      with Some None show ?thesis by simp
    next
      case g: (Some g)
      have hp: "historyProviderOf ?vm r = Some hp" using Some by simp
      from getHistoryItems_first [OF r s hp g]
      have "providerCalls (getHistoryItems ?vm) = [nextRequest ?vm 0]"
        by (simp split: sum.splits)
      with Some g show ?thesis by (simp add: nextRequest_def)
    qed
  qed
qed

theorem clearRepositoryState_refetch_from_zero_witness:
  "repository cachedViewModel = Some 0
   \<and> providerCalls (getHistoryItems cachedViewModel) = []
   \<and> providerCalls (getHistoryItems (clearRepositoryState cachedViewModel))
       = [\<lparr>historyItemGroupIds = Some [''refs/heads/main'', ''refs/remotes/origin/main'',
                                       ''refs/remotes/origin/main''],
           limit = LimitNumber 2, skip = Some 0\<rparr>]"
proof -
  have r: "repository cachedViewModel = Some 0"
    by (simp add: cachedViewModel_def freshViewModel_def)
  have hit: "providerCalls (getHistoryItems cachedViewModel) = []"
    by (simp add: getHistoryItems_def Let_def cachedViewModel_def freshViewModel_def
        pagingProvider_def)
  have hp: "historyProviderOf cachedViewModel 0 = Some pagingProvider"
    by (simp add: cachedViewModel_def freshViewModel_def)
  have g: "scmCurrentHistoryItemGroup pagingProvider = Some mainGroup"
    by (simp add: pagingProvider_def)
  have l: "clamp (pageSize cachedViewModel) 1 1000 = 2"
    by (simp add: clamp_def cachedViewModel_def freshViewModel_def)
  from clearRepositoryState_refetch_from_zero [OF r] hp g l cachedViewModel_filter r hit
  show ?thesis by simp
qed

text \<open>
  C7. Every request that \<open>getHistoryItems\<close> sends to the provider has as its limit the
  configured page size clamped to the interval from 1 to 1000 (so the page size itself
  when it lies in the interval) and as its skip the number of items cached for the
  active repository, which is 0 when nothing is cached.
\<close>

theorem getHistoryItems_request_limit_and_skip:
  "\<forall>req \<in> set (providerCalls (getHistoryItems vm)).
     limit req = LimitNumber (clamp (pageSize vm) 1 1000)
     \<and> 1 \<le> clamp (pageSize vm) 1 1000 \<and> clamp (pageSize vm) 1 1000 \<le> 1000
     \<and> (1 \<le> pageSize vm \<and> pageSize vm \<le> 1000 \<longrightarrow> clamp (pageSize vm) 1 1000 = pageSize vm)
     \<and> (\<exists>r. repository vm = Some r
            \<and> skip req = Some (case state vm r of Some s \<Rightarrow> length (items s) | None \<Rightarrow> 0))"
proof
  fix req assume "req \<in> set (providerCalls (getHistoryItems vm))"
  from getHistoryItems_call_shape [OF this]
  obtain r where r: "repository vm = Some r"
    and req: "req = nextRequest vm (case state vm r of Some s \<Rightarrow> length (items s) | None \<Rightarrow> 0)"
    by blast
  have "limit req = LimitNumber (clamp (pageSize vm) 1 1000)"
    by (simp add: req nextRequest_def)
  moreover have "1 \<le> clamp (pageSize vm) 1 1000 \<and> clamp (pageSize vm) 1 1000 \<le> 1000
     \<and> (1 \<le> pageSize vm \<and> pageSize vm \<le> 1000 \<longrightarrow> clamp (pageSize vm) 1 1000 = pageSize vm)"
    by (simp add: clamp_def)
  moreover have "\<exists>r. repository vm = Some r
            \<and> skip req = Some (case state vm r of Some s \<Rightarrow> length (items s) | None \<Rightarrow> 0)"
    using r by (simp add: req nextRequest_def)
  ultimately show "limit req = LimitNumber (clamp (pageSize vm) 1 1000)
     \<and> 1 \<le> clamp (pageSize vm) 1 1000 \<and> clamp (pageSize vm) 1 1000 \<le> 1000
     \<and> (1 \<le> pageSize vm \<and> pageSize vm \<le> 1000 \<longrightarrow> clamp (pageSize vm) 1 1000 = pageSize vm)
     \<and> (\<exists>r. repository vm = Some r
            \<and> skip req = Some (case state vm r of Some s \<Rightarrow> length (items s) | None \<Rightarrow> 0))"
    by blast
qed

text \<open>
  C8. When the active repository has no history provider, or has nothing cached and its
  provider has no current group, \<open>getHistoryItems\<close> resolves to the empty list, sends
  nothing to the provider and leaves the view model as it was. Likewise the Git provider
  resolves to the empty list, without calling \<open>repository.log\<close> and without logging, when
  it has no current group or the options carry no group ids.
\<close>

theorem getHistoryItems_empty_without_provider_or_group:
  "(repository vm = Some r
      \<and> (historyProviderOf vm r = None
          \<or> (state vm r = None \<and> historyProviderOf vm r = Some hp
               \<and> scmCurrentHistoryItemGroup hp = None))
    \<longrightarrow> getHistoryItems vm = \<lparr>providerCalls = [], viewModel = vm, settled = Inr []\<rparr>)
   \<and> (currentHistoryItemGroup p = None \<or> historyItemGroupIds options = None
    \<longrightarrow> provideHistoryItems p options = \<lparr>logged = [], logCalls = [], returned = Inr []\<rparr>)"
proof (intro conjI impI)
  assume "repository vm = Some r
      \<and> (historyProviderOf vm r = None
          \<or> (state vm r = None \<and> historyProviderOf vm r = Some hp
               \<and> scmCurrentHistoryItemGroup hp = None))"
  then show "getHistoryItems vm = \<lparr>providerCalls = [], viewModel = vm, settled = Inr []\<rparr>"
    by (intro getHistoryItems_nothing) auto
next
  assume "currentHistoryItemGroup p = None \<or> historyItemGroupIds options = None"
  then show "provideHistoryItems p options = \<lparr>logged = [], logCalls = [], returned = Inr []\<rparr>"
    by (auto simp: provideHistoryItems_def split: option.splits)
qed

theorem getHistoryItems_request_limit_and_skip_witness:
  "providerCalls (getHistoryItems (setLoadMore (cachedViewModel\<lparr>pageSize := 5000\<rparr>) 0 True))
     = [\<lparr>historyItemGroupIds = Some [''refs/heads/main'', ''refs/remotes/origin/main'',
                                     ''refs/remotes/origin/main''],
         limit = LimitNumber 1000, skip = Some 2\<rparr>]
   \<and> clamp (pageSize (setLoadMore (cachedViewModel\<lparr>pageSize := 5000\<rparr>) 0 True)) 1 1000 = 1000
   \<and> (case state (setLoadMore (cachedViewModel\<lparr>pageSize := 5000\<rparr>) 0 True) 0 of
         Some s \<Rightarrow> length (items s) | None \<Rightarrow> 0) = 2"
proof -
  let ?vm = "setLoadMore (cachedViewModel\<lparr>pageSize := 5000\<rparr>) 0 True"
  let ?req = "\<lparr>historyItemGroupIds = Some [''refs/heads/main'', ''refs/remotes/origin/main'',
                                     ''refs/remotes/origin/main''],
         limit = LimitNumber 1000, skip = Some 2\<rparr>"
  have calls: "providerCalls (getHistoryItems ?vm) = [?req]"
    by (simp add: getHistoryItems_def Let_def setLoadMore_def cachedViewModel_def
        freshViewModel_def pagingProvider_def historyItemGroupFilter_def mainGroup_def
        orElse_def clamp_def threeItems_length)
  have mem: "?req \<in> set (providerCalls (getHistoryItems ?vm))"
    by (simp only: calls list.set_intros)
  have cl: "clamp (pageSize ?vm) 1 1000 = 1000"
    by (simp add: clamp_def)
  have n: "(case state ?vm 0 of Some s \<Rightarrow> length (items s) | None \<Rightarrow> 0) = 2"
    by (simp add: setLoadMore_state cachedViewModel_def freshViewModel_def threeItems_length)
  from bspec [OF getHistoryItems_request_limit_and_skip mem]
  have "limit ?req = LimitNumber (clamp (pageSize ?vm) 1 1000)" by blast
  with calls cl n show ?thesis by simp
qed

theorem getHistoryItems_empty_without_provider_or_group_witness:
  "repository detachedViewModel = Some 0
   \<and> state detachedViewModel 0 = None
   \<and> scmCurrentHistoryItemGroup (pagingProvider\<lparr>scmCurrentHistoryItemGroup := None\<rparr>) = None
   \<and> providerCalls (getHistoryItems detachedViewModel) = []
   \<and> settled (getHistoryItems detachedViewModel) = Inr []
   \<and> provideHistoryItems (workingGit\<lparr>currentHistoryItemGroup := None\<rparr>)
        \<lparr>historyItemGroupIds = Some [''refs/heads/main''], limit = LimitNumber 2, skip = Some 0\<rparr>
       = \<lparr>logged = [], logCalls = [], returned = Inr []\<rparr>"
proof -
  let ?hp = "pagingProvider\<lparr>scmCurrentHistoryItemGroup := None\<rparr>"
  let ?p = "workingGit\<lparr>currentHistoryItemGroup := None\<rparr>"
  let ?options = "\<lparr>historyItemGroupIds = Some [''refs/heads/main''], limit = LimitNumber 2,
                   skip = Some 0\<rparr>"
  have r: "repository detachedViewModel = Some 0"
    by (simp add: detachedViewModel_def freshViewModel_def)
  have s: "state detachedViewModel 0 = None"
    by (simp add: detachedViewModel_def freshViewModel_def)
  have hp: "historyProviderOf detachedViewModel 0 = Some ?hp"
    by (simp add: detachedViewModel_def freshViewModel_def)
  have g: "scmCurrentHistoryItemGroup ?hp = None" by simp
  have p: "currentHistoryItemGroup ?p = None" by simp
  note both = getHistoryItems_empty_without_provider_or_group
    [of detachedViewModel 0 ?hp ?p ?options]
  from both r s hp g
  have a: "getHistoryItems detachedViewModel
             = \<lparr>providerCalls = [], viewModel = detachedViewModel, settled = Inr []\<rparr>"
    by blast
  from both p
  have b: "provideHistoryItems ?p ?options = \<lparr>logged = [], logCalls = [], returned = Inr []\<rparr>"
    by blast
  from r s g b show ?thesis by (simp add: a)
qed

section \<open>The load-more callback: properties\<close>

lemma loadMoreEntered_guarded:
  "repositoryLoadMore (pane c) \<Longrightarrow> loadMoreEntered r c = c"
  by (simp add: loadMoreEntered_def)

lemma sequencerStart_guarded:
  "repositoryLoadMore (pane c) \<Longrightarrow> awaiting c = [] \<Longrightarrow> queued c = r # rest \<Longrightarrow>
     sequencerStart c = c\<lparr>queued := rest\<rparr>"
  by (simp add: sequencerStart_def loadMoreEntered_def)

lemma sequencerStart_held: "awaiting c \<noteq> [] \<Longrightarrow> sequencerStart c = c"
  by (simp add: sequencerStart_def)

lemma sequencerStart_awaiting:
  "length (awaiting c) \<le> Suc 0 \<Longrightarrow> length (awaiting (sequencerStart c)) \<le> Suc 0"
  by (auto simp: sequencerStart_def loadMoreEntered_def split: list.splits)

lemma updateChildrenSettled_awaiting:
  "length (awaiting c) \<le> Suc 0 \<Longrightarrow> length (awaiting (updateChildrenSettled c)) \<le> Suc 0"
  by (auto simp: updateChildrenSettled_def Let_def split: list.splits)

lemma paneStep_awaiting:
  "length (awaiting c) \<le> Suc 0 \<Longrightarrow> length (awaiting (paneStep e c)) \<le> Suc 0"
  by (cases e)
     (simp_all add: loadMoreCallback_def sequencerStart_awaiting updateChildrenSettled_awaiting)

lemma paneRun_awaiting:
  "length (awaiting c) \<le> Suc 0 \<Longrightarrow> length (awaiting (paneRun es c)) \<le> Suc 0"
  by (induction es arbitrary: c) (simp_all add: paneStep_awaiting)

lemma providerCalls_atmost_one: "length (providerCalls (getHistoryItems vm)) \<le> 1"
  by (simp add: getHistoryItems_def Let_def split: option.splits sum.splits)

lemma owed_sequencerStart:
  "length (requests (sequencerStart c)) + length (awaiting (sequencerStart c))
     + length (queued (sequencerStart c))
   \<le> length (requests c) + length (awaiting c) + length (queued c)"
  by (auto simp: sequencerStart_def loadMoreEntered_def split: list.splits)

lemma owed_updateChildrenSettled:
  "length (requests (updateChildrenSettled c)) + length (awaiting (updateChildrenSettled c))
     + length (queued (updateChildrenSettled c))
   \<le> length (requests c) + length (awaiting c) + length (queued c)"
  using providerCalls_atmost_one [of "treeViewModel (pane c)"]
  by (auto simp: updateChildrenSettled_def updateChildren_def treeUpdateChildren_def Let_def
      split: list.splits)

lemma owed_paneRun:
  "length (requests (paneRun es c)) + length (awaiting (paneRun es c))
     + length (queued (paneRun es c))
   \<le> length (requests c) + length (awaiting c) + length (queued c) + length (callbacks es)"
proof (induction es arbitrary: c)
  case Nil
  then show ?case by simp
next
  case (Cons e es)
  show ?case
  proof (cases e)
    case (LoadMoreCallback r)
    with Cons [of "loadMoreCallback r c"] show ?thesis
      by (simp add: loadMoreCallback_def)
  next
    case TaskStarted
    with Cons [of "sequencerStart c"] owed_sequencerStart [of c] show ?thesis by simp
  next
    case UpdateChildrenSettled
    with Cons [of "updateChildrenSettled c"] owed_updateChildrenSettled [of c]
    show ?thesis by simp
  qed
qed

lemma requests_paneRun:
  assumes "awaiting c = []" and "queued c = []"
  shows "length (requests (paneRun es c)) \<le> length (requests c) + length (callbacks es)"
  using owed_paneRun [of es c] assms by simp

lemma setLoadMore_request:
  assumes "repository vm = Some r" and "state vm r = Some s" and "historyProviderOf vm r = Some hp"
  shows "providerCalls (getHistoryItems (setLoadMore vm r True))
           = [\<lparr>historyItemGroupIds = Some (historyItemGroupFilter vm),
               limit = LimitNumber (clamp (pageSize vm) 1 1000),
               skip = Some (length (items s))\<rparr>]"
proof -
  let ?vm = "setLoadMore vm r True"
  have r: "repository ?vm = Some r" using assms(1) by simp
  have s: "state ?vm r = Some (s\<lparr>loadMore := True\<rparr>)" using assms(2) by (simp add: setLoadMore_state)
  have hp: "historyProviderOf ?vm r = Some hp" using assms(3) by simp
  from getHistoryItems_fetch [OF r s _ hp]
  show ?thesis by (simp add: nextRequest_def split: sum.splits)
qed

lemma historyItemGroupFilter_state [simp]:
  "historyItemGroupFilter (vm\<lparr>state := st\<rparr>) = historyItemGroupFilter vm"
  by (simp add: historyItemGroupFilter_def cong: Filter.case_cong option.case_cong)

lemma two_callbacks_two_requests:
  fixes c :: "'vm PaneRun"
  assumes flag: "\<not> repositoryLoadMore (pane c)" and aw: "awaiting c = []" and qu: "queued c = []"
    and r: "repository (treeViewModel (pane c)) = Some r"
    and s: "state (treeViewModel (pane c)) r = Some s"
    and hp: "historyProviderOf (treeViewModel (pane c)) r = Some hp"
    and page: "scmProvideHistoryItems hp
           \<lparr>historyItemGroupIds = Some (historyItemGroupFilter (treeViewModel (pane c))),
            limit = LimitNumber (clamp (pageSize (treeViewModel (pane c))) 1 1000),
            skip = Some (length (items s))\<rparr> = Inr page"
  shows "requests (paneRun [LoadMoreCallback r, TaskStarted, LoadMoreCallback r, TaskStarted,
                            UpdateChildrenSettled, TaskStarted, UpdateChildrenSettled] c)
         = requests c
           @ [\<lparr>historyItemGroupIds = Some (historyItemGroupFilter (treeViewModel (pane c))),
               limit = LimitNumber (clamp (pageSize (treeViewModel (pane c))) 1 1000),
               skip = Some (length (items s))\<rparr>,
              \<lparr>historyItemGroupIds = Some (historyItemGroupFilter (treeViewModel (pane c))),
               limit = LimitNumber (clamp (pageSize (treeViewModel (pane c))) 1 1000),
               skip = Some (length (items s) + length (orElse page []))\<rparr>]"
proof -
  let ?vm = "treeViewModel (pane c)"
  let ?vm0 = "setLoadMore ?vm r True"
  let ?s' = "\<lparr>stateCurrentHistoryItemGroup = stateCurrentHistoryItemGroup s,
              items = items s @ orElse page [], loadMore = False\<rparr>"
  let ?vm1 = "?vm0\<lparr>state := (state ?vm0)(r \<mapsto> ?s')\<rparr>"
  let ?req1 = "\<lparr>historyItemGroupIds = Some (historyItemGroupFilter ?vm),
               limit = LimitNumber (clamp (pageSize ?vm) 1 1000),
               skip = Some (length (items s))\<rparr>"
  let ?req2 = "\<lparr>historyItemGroupIds = Some (historyItemGroupFilter ?vm),
               limit = LimitNumber (clamp (pageSize ?vm) 1 1000),
               skip = Some (length (items s) + length (orElse page []))\<rparr>"
  have r0: "repository ?vm0 = Some r" using r by simp
  have s0: "state ?vm0 r = Some (s\<lparr>loadMore := True\<rparr>)" using s by (simp add: setLoadMore_state)
  have hp0: "historyProviderOf ?vm0 r = Some hp" using hp by simp
  have page0: "scmProvideHistoryItems hp (nextRequest ?vm0 (length (items (s\<lparr>loadMore := True\<rparr>)))) = Inr page"
    using page by (simp add: nextRequest_def)
  have first: "getHistoryItems ?vm0 =
     \<lparr>providerCalls = [?req1], viewModel = ?vm1,
      settled = Inr (toTreeElements ?vm r (stateCurrentHistoryItemGroup s) (items s @ orElse page []))\<rparr>"
    using getHistoryItems_fetch [OF r0 s0 _ hp0] page0 by (simp add: nextRequest_def)
  have r1: "repository ?vm1 = Some r" using r by simp
  have s1: "state ?vm1 r = Some ?s'" by simp
  have hp1: "historyProviderOf ?vm1 r = Some hp" using hp by simp
  have second: "providerCalls (getHistoryItems (setLoadMore ?vm1 r True)) = [?req2]"
    using setLoadMore_request [OF r1 s1 hp1] by simp
  show ?thesis
    using flag aw qu
    by (simp add: loadMoreCallback_def sequencerStart_def loadMoreEntered_def
        updateChildrenSettled_def updateChildren_def treeUpdateChildren_def Let_def first second)
qed


text \<open>
  C5, as stated, fails. The pane has cached two items. \<open>_loadMoreCallback\<close> is called,
  its body starts, and it is called a second time while the first update is outstanding:
  the second task is not a no-op but stays queued, runs when the first has settled, and
  sends a request of its own, so two requests reach the provider.
\<close>

theorem second_loadMore_fetches_again:
  "awaiting (paneRun [LoadMoreCallback 0, TaskStarted, LoadMoreCallback 0, TaskStarted] idlePane) = [0]
   \<and> queued (paneRun [LoadMoreCallback 0, TaskStarted, LoadMoreCallback 0, TaskStarted] idlePane) = [0]
   \<and> requests (paneRun [LoadMoreCallback 0, TaskStarted, LoadMoreCallback 0, TaskStarted] idlePane) = []
   \<and> requests (paneRun [LoadMoreCallback 0, TaskStarted, LoadMoreCallback 0, TaskStarted,
                         UpdateChildrenSettled, TaskStarted, UpdateChildrenSettled] idlePane)
       = [\<lparr>historyItemGroupIds = Some [''refs/heads/main'', ''refs/remotes/origin/main'',
                                       ''refs/remotes/origin/main''],
           limit = LimitNumber 2, skip = Some 2\<rparr>,
          \<lparr>historyItemGroupIds = Some [''refs/heads/main'', ''refs/remotes/origin/main'',
                                       ''refs/remotes/origin/main''],
           limit = LimitNumber 2, skip = Some 3\<rparr>]"
proof -
  let ?s = "\<lparr>stateCurrentHistoryItemGroup = mainGroup, items = take 2 threeItems, loadMore = False\<rparr>"
  have f: "\<not> repositoryLoadMore (pane idlePane)" by (simp add: idlePane_def)
  have w: "awaiting idlePane = []" by (simp add: idlePane_def)
  have q: "queued idlePane = []" by (simp add: idlePane_def)
  have vm: "treeViewModel (pane idlePane) = cachedViewModel" by (simp add: idlePane_def)
  have r: "repository (treeViewModel (pane idlePane)) = Some 0"
    by (simp add: vm cachedViewModel_def freshViewModel_def)
  have s: "state (treeViewModel (pane idlePane)) 0 = Some ?s"
    by (simp add: vm cachedViewModel_def freshViewModel_def)
  have hp: "historyProviderOf (treeViewModel (pane idlePane)) 0 = Some pagingProvider"
    by (simp add: vm cachedViewModel_def freshViewModel_def)
  have l: "clamp (pageSize cachedViewModel) 1 1000 = 2"
    by (simp add: clamp_def cachedViewModel_def freshViewModel_def)
  have page: "scmProvideHistoryItems pagingProvider
           \<lparr>historyItemGroupIds = Some (historyItemGroupFilter (treeViewModel (pane idlePane))),
            limit = LimitNumber (clamp (pageSize (treeViewModel (pane idlePane))) 1 1000),
            skip = Some (length (items ?s))\<rparr> = Inr (Some (drop 2 threeItems))"
    using pagingProvider_page3 by (simp add: vm l threeItems_length)
  have before: "awaiting (paneRun [LoadMoreCallback 0, TaskStarted, LoadMoreCallback 0, TaskStarted] idlePane) = [0]
   \<and> queued (paneRun [LoadMoreCallback 0, TaskStarted, LoadMoreCallback 0, TaskStarted] idlePane) = [0]
   \<and> requests (paneRun [LoadMoreCallback 0, TaskStarted, LoadMoreCallback 0, TaskStarted] idlePane) = []"
    by (simp add: loadMoreCallback_def sequencerStart_def loadMoreEntered_def idlePane_def)
  from two_callbacks_two_requests [OF f w q r s hp page]
  have "requests (paneRun [LoadMoreCallback 0, TaskStarted, LoadMoreCallback 0, TaskStarted,
                         UpdateChildrenSettled, TaskStarted, UpdateChildrenSettled] idlePane)
       = [\<lparr>historyItemGroupIds = Some [''refs/heads/main'', ''refs/remotes/origin/main'',
                                       ''refs/remotes/origin/main''],
           limit = LimitNumber 2, skip = Some 2\<rparr>,
          \<lparr>historyItemGroupIds = Some [''refs/heads/main'', ''refs/remotes/origin/main'',
                                       ''refs/remotes/origin/main''],
           limit = LimitNumber 2, skip = Some 3\<rparr>]"
    by (simp add: vm l cachedViewModel_filter threeItems_length orElse_def idlePane_def)
  with before show ?thesis by blast
qed

text \<open>
  C5, amended. Start with no load-more task queued or suspended. Whatever the calls of
  \<open>_loadMoreCallback\<close> and the order of events, at most one load-more task is suspended
  at its update at any time, and the requests that reach a provider are at most as many
  as the calls. While a task is suspended the sequencer starts no other body. A body
  that starts while the flag is set, which an update that threw leaves behind, returns
  without changing anything. A second call made while the first update is outstanding
  is not a no-op: when the repository is the active one, has cached state and a provider
  that answers the first request with a page, the second task runs after the first has
  settled and sends a second request, whose \<open>skip\<close> is advanced by the size of that page.
\<close>

theorem loadMore_serialised:
  assumes "awaiting c = []" and "queued c = []"
  shows "length (awaiting (paneRun es c)) \<le> 1
       \<and> length (requests (paneRun es c)) \<le> length (requests c) + length (callbacks es)
       \<and> (awaiting c' \<noteq> [] \<longrightarrow> paneStep TaskStarted c' = c')
       \<and> (repositoryLoadMore (pane c'') \<and> awaiting c'' = [] \<and> queued c'' = r' # rest \<longrightarrow>
            paneStep TaskStarted c'' = c''\<lparr>queued := rest\<rparr>)
       \<and> (\<not> repositoryLoadMore (pane c)
            \<and> repository (treeViewModel (pane c)) = Some r
            \<and> state (treeViewModel (pane c)) r = Some s
            \<and> historyProviderOf (treeViewModel (pane c)) r = Some hp
            \<and> scmProvideHistoryItems hp
                 \<lparr>historyItemGroupIds = Some (historyItemGroupFilter (treeViewModel (pane c))),
                  limit = LimitNumber (clamp (pageSize (treeViewModel (pane c))) 1 1000),
                  skip = Some (length (items s))\<rparr> = Inr page \<longrightarrow>
          requests (paneRun [LoadMoreCallback r, TaskStarted, LoadMoreCallback r, TaskStarted,
                             UpdateChildrenSettled, TaskStarted, UpdateChildrenSettled] c)
           = requests c
             @ [\<lparr>historyItemGroupIds = Some (historyItemGroupFilter (treeViewModel (pane c))),
                 limit = LimitNumber (clamp (pageSize (treeViewModel (pane c))) 1 1000),
                 skip = Some (length (items s))\<rparr>,
                \<lparr>historyItemGroupIds = Some (historyItemGroupFilter (treeViewModel (pane c))),
                 limit = LimitNumber (clamp (pageSize (treeViewModel (pane c))) 1 1000),
                 skip = Some (length (items s) + length (orElse page []))\<rparr>])"
proof -
  have "length (awaiting (paneRun es c)) \<le> Suc 0"
    using assms(1) by (intro paneRun_awaiting) simp
  then have one: "length (awaiting (paneRun es c)) \<le> 1" by simp
  have count: "length (requests (paneRun es c)) \<le> length (requests c) + length (callbacks es)"
    using assms by (rule requests_paneRun)
  have held: "awaiting c' \<noteq> [] \<longrightarrow> paneStep TaskStarted c' = c'"
    by (simp add: sequencerStart_held)
  have guarded: "repositoryLoadMore (pane c'') \<and> awaiting c'' = [] \<and> queued c'' = r' # rest \<longrightarrow>
            paneStep TaskStarted c'' = c''\<lparr>queued := rest\<rparr>"
    by (simp add: sequencerStart_guarded)
  have twice: "\<not> repositoryLoadMore (pane c)
            \<and> repository (treeViewModel (pane c)) = Some r
            \<and> state (treeViewModel (pane c)) r = Some s
            \<and> historyProviderOf (treeViewModel (pane c)) r = Some hp
            \<and> scmProvideHistoryItems hp
                 \<lparr>historyItemGroupIds = Some (historyItemGroupFilter (treeViewModel (pane c))),
                  limit = LimitNumber (clamp (pageSize (treeViewModel (pane c))) 1 1000),
                  skip = Some (length (items s))\<rparr> = Inr page \<longrightarrow>
          requests (paneRun [LoadMoreCallback r, TaskStarted, LoadMoreCallback r, TaskStarted,
                             UpdateChildrenSettled, TaskStarted, UpdateChildrenSettled] c)
           = requests c
             @ [\<lparr>historyItemGroupIds = Some (historyItemGroupFilter (treeViewModel (pane c))),
                 limit = LimitNumber (clamp (pageSize (treeViewModel (pane c))) 1 1000),
                 skip = Some (length (items s))\<rparr>,
                \<lparr>historyItemGroupIds = Some (historyItemGroupFilter (treeViewModel (pane c))),
                 limit = LimitNumber (clamp (pageSize (treeViewModel (pane c))) 1 1000),
                 skip = Some (length (items s) + length (orElse page []))\<rparr>]"
    using two_callbacks_two_requests [OF _ assms] by blast
  from one count held guarded twice show ?thesis by blast
qed

theorem loadMore_serialised_witness:
  "awaiting idlePane = [] \<and> queued idlePane = [] \<and> \<not> repositoryLoadMore (pane idlePane)
   \<and> awaiting (paneRun [LoadMoreCallback 0, TaskStarted, LoadMoreCallback 0] idlePane) = [0]
   \<and> queued (paneStep TaskStarted
        (paneRun [LoadMoreCallback 0, TaskStarted, LoadMoreCallback 0] idlePane)) = [0]
   \<and> repositoryLoadMore (pane (paneRun
        [LoadMoreCallback 0, TaskStarted, UpdateChildrenSettled, LoadMoreCallback 0] rejectingPane))
   \<and> queued (paneRun
        [LoadMoreCallback 0, TaskStarted, UpdateChildrenSettled, LoadMoreCallback 0] rejectingPane) = [0]
   \<and> requests (paneStep TaskStarted (paneRun
        [LoadMoreCallback 0, TaskStarted, UpdateChildrenSettled, LoadMoreCallback 0] rejectingPane))
       = [\<lparr>historyItemGroupIds = Some [''refs/heads/main'', ''refs/remotes/origin/main'',
                                       ''refs/remotes/origin/main''],
           limit = LimitNumber 2, skip = Some 0\<rparr>]
   \<and> queued (paneStep TaskStarted (paneRun
        [LoadMoreCallback 0, TaskStarted, UpdateChildrenSettled, LoadMoreCallback 0] rejectingPane)) = []
   \<and> length (requests (paneRun [LoadMoreCallback 0, TaskStarted, LoadMoreCallback 0, TaskStarted,
                                 UpdateChildrenSettled, TaskStarted, UpdateChildrenSettled] idlePane)) = 2"
proof -
  let ?s = "\<lparr>stateCurrentHistoryItemGroup = mainGroup, items = take 2 threeItems, loadMore = False\<rparr>"
  let ?es = "[LoadMoreCallback 0, TaskStarted, LoadMoreCallback 0, TaskStarted,
              UpdateChildrenSettled, TaskStarted, UpdateChildrenSettled]"
  let ?held = "paneRun [LoadMoreCallback 0, TaskStarted, LoadMoreCallback 0] idlePane"
  let ?stuck = "paneRun [LoadMoreCallback 0, TaskStarted, UpdateChildrenSettled, LoadMoreCallback 0]
                  rejectingPane"
  let ?req0 = "\<lparr>historyItemGroupIds = Some [''refs/heads/main'', ''refs/remotes/origin/main'',
                                       ''refs/remotes/origin/main''],
                limit = LimitNumber 2, skip = Some 0\<rparr>"
  have f: "\<not> repositoryLoadMore (pane idlePane)" by (simp add: idlePane_def)
  have w: "awaiting idlePane = []" by (simp add: idlePane_def)
  have q: "queued idlePane = []" by (simp add: idlePane_def)
  have rq: "requests idlePane = []" by (simp add: idlePane_def)
  have vm: "treeViewModel (pane idlePane) = cachedViewModel" by (simp add: idlePane_def)
  have r: "repository (treeViewModel (pane idlePane)) = Some 0"
    by (simp add: vm cachedViewModel_def freshViewModel_def)
  have s: "state (treeViewModel (pane idlePane)) 0 = Some ?s"
    by (simp add: vm cachedViewModel_def freshViewModel_def)
  have hp: "historyProviderOf (treeViewModel (pane idlePane)) 0 = Some pagingProvider"
    by (simp add: vm cachedViewModel_def freshViewModel_def)
  have l: "clamp (pageSize cachedViewModel) 1 1000 = 2"
    by (simp add: clamp_def cachedViewModel_def freshViewModel_def)
  have page: "scmProvideHistoryItems pagingProvider
           \<lparr>historyItemGroupIds = Some (historyItemGroupFilter (treeViewModel (pane idlePane))),
            limit = LimitNumber (clamp (pageSize (treeViewModel (pane idlePane))) 1 1000),
            skip = Some (length (items ?s))\<rparr> = Inr (Some (drop 2 threeItems))"
    using pagingProvider_page3 by (simp add: vm l threeItems_length)
  have held_aw: "awaiting ?held = [0]"
    by (simp add: loadMoreCallback_def sequencerStart_def loadMoreEntered_def idlePane_def)
  have held_qu: "queued ?held = [0]"
    by (simp add: loadMoreCallback_def sequencerStart_def loadMoreEntered_def idlePane_def)
  have rejected: "getHistoryItems rejectingViewModel
      = \<lparr>providerCalls = [?req0], viewModel = rejectingViewModel,
         settled = Inl (Error ''provider failed'')\<rparr>"
    by (simp add: getHistoryItems_def rejectingViewModel_def freshViewModel_def
        rejectingProvider_def historyItemGroupFilter_def mainGroup_def orElse_def clamp_def)
  have noState: "setLoadMore rejectingViewModel 0 True = rejectingViewModel"
    by (simp add: setLoadMore_def rejectingViewModel_def freshViewModel_def)
  have stuck: "?stuck = \<lparr>pane = \<lparr>treeViewModel = rejectingViewModel, repositoryLoadMore = True\<rparr>,
      requests = [?req0], queued = [0], awaiting = []\<rparr>"
    by (simp add: loadMoreCallback_def sequencerStart_def loadMoreEntered_def
        updateChildrenSettled_def updateChildren_def treeUpdateChildren_def Let_def
        rejectingPane_def noState rejected)
  have stuck_flag: "repositoryLoadMore (pane ?stuck)" by (simp only: stuck) simp
  have stuck_aw: "awaiting ?stuck = []" by (simp only: stuck) simp
  have stuck_qu: "queued ?stuck = [0]" by (simp only: stuck) simp
  have stuck_rq: "requests ?stuck = [?req0]" by (simp only: stuck) simp
  note serial = loadMore_serialised
    [OF w q, of ?es ?held ?stuck 0 "[]" 0 ?s pagingProvider "Some (drop 2 threeItems)"]
  from serial held_aw have "paneStep TaskStarted ?held = ?held" by simp
  then have a: "queued (paneStep TaskStarted ?held) = [0]" by (simp only: held_qu)
  from serial stuck_flag stuck_aw stuck_qu
  have "paneStep TaskStarted ?stuck = ?stuck\<lparr>queued := []\<rparr>" by blast
  then have "requests (paneStep TaskStarted ?stuck) = requests ?stuck
              \<and> queued (paneStep TaskStarted ?stuck) = []"
    by (simp del: paneRun.simps paneStep.simps)
  then have b: "requests (paneStep TaskStarted ?stuck) = [?req0]
              \<and> queued (paneStep TaskStarted ?stuck) = []"
    by (simp only: stuck_rq)
  from serial f r s hp page
  have "requests (paneRun ?es idlePane)
      = requests idlePane
        @ [\<lparr>historyItemGroupIds = Some (historyItemGroupFilter (treeViewModel (pane idlePane))),
            limit = LimitNumber (clamp (pageSize (treeViewModel (pane idlePane))) 1 1000),
            skip = Some (length (items ?s))\<rparr>,
           \<lparr>historyItemGroupIds = Some (historyItemGroupFilter (treeViewModel (pane idlePane))),
            limit = LimitNumber (clamp (pageSize (treeViewModel (pane idlePane))) 1 1000),
            skip = Some (length (items ?s) + length (orElse (Some (drop 2 threeItems)) []))\<rparr>]"
    by blast
  then have c: "length (requests (paneRun ?es idlePane)) = 2"
    by (simp only: rq) simp
  from w q f held_aw a stuck_flag stuck_qu b c show ?thesis by blast
qed

end
